theory Spec2Isabelle
  imports Complex_Main "HOL-Library.Char_ord" "HOL-Library.List_Lexorder"
begin

section \<open>User dictionary manager (src/lever/user_dict_manager.cc)\<close>

text \<open>
  A shallow embedding of \<^verbatim>\<open>UserDictManager\<close>: the snapshot merge of \<^verbatim>\<open>Restore\<close>,
  the text import of \<^verbatim>\<open>Import\<close>, and the orchestration of \<^verbatim>\<open>Backup\<close>,
  \<^verbatim>\<open>Synchronize\<close> and \<^verbatim>\<open>SynchronizeAll\<close>. The key-value store engine
  (\<^verbatim>\<open>UserDb<TreeDb>\<close>), the record codec (\<^verbatim>\<open>UserDbValue\<close>), the decay formula
  (\<^verbatim>\<open>algo::formula_d\<close>) and the file system are not part of the file; they appear below
  as a model of their interface or as parameters.
\<close>

subsection \<open>Records and their codec\<close>

text \<open>
  \<^verbatim>\<open>TickCount\<close> is an unsigned 64-bit counter. The manager only reads, compares and
  stores ticks (no arithmetic), so no wrap-around can occur and a tick is a natural number.
  \<^verbatim>\<open>commits\<close> is a C++ \<^verbatim>\<open>int\<close> that is only compared and copied. \<^verbatim>\<open>dee\<close> is a
  \<^verbatim>\<open>double\<close>; it is represented by a real number, on which \<^verbatim>\<open>std::max\<close> is \<open>max\<close>
  (rounding and NaN are outside the model).
\<close>

type_synonym TickCount = nat

record UserDbValue =
  commits :: int
  dee :: real
  tick :: TickCount

text \<open>
  Modelled from the spec: the default-constructed \<^verbatim>\<open>UserDbValue\<close> (its constructor is
  in user_db.h, not under src/) has "default/zero fields".
\<close>

definition UserDbValue_default :: UserDbValue where
  "UserDbValue_default = \<lparr>commits = 0, dee = 0, tick = 0\<rparr>"

text \<open>
  Modelled from the spec: the Record Codec (\<^verbatim>\<open>UserDbValue::Pack\<close> and
  \<^verbatim>\<open>UserDbValue::Unpack\<close>, in user_db.cc, not under src/) "must round-trip exactly".
  A persisted value is therefore represented by the record it decodes to, and both
  directions of the codec are the identity on that representation.
\<close>

type_synonym packed = UserDbValue

definition Pack :: "UserDbValue \<Rightarrow> packed" where
  "Pack v = v"

definition Unpack :: "packed \<Rightarrow> UserDbValue" where
  "Unpack s = s"

text \<open>
  The decay formula \<^verbatim>\<open>algo::formula_d(d, t, da, ta)\<close> (rime/algo/dynamics.h) is not
  under src/ and the spec leaves its curve open; it is a parameter \<open>fd\<close> of everything
  that calls it.
\<close>

type_synonym formula = "real \<Rightarrow> real \<Rightarrow> real \<Rightarrow> real \<Rightarrow> real"

subsection \<open>The store engine\<close>

text \<open>
  Modelled from the spec: \<^verbatim>\<open>UserDb<TreeDb>\<close> (rime/dict/user_db.h, tree_db.h, not under
  src/) is "a named, persistent ordered key-value store" that owns its records, one
  logical clock, one owning identity and the tag that marks it as a user dictionary.
  The records are kept as an association list in ascending key order (bytewise, as the
  engine compares keys). The metadata is kept typed: writing the decimal text of a tick
  under \<^verbatim>\<open>"/tick"\<close> and reading it back with \<^verbatim>\<open>GetTickCount\<close> gives that tick.
  The accessors read the metadata, \<^verbatim>\<open>Fetch\<close> looks a key up, and a write puts the
  record at its place in the order, replacing the one already under the key.
\<close>

record UserDb =
  db_name :: string
  is_user_db :: bool
  owner_id :: string
  tick_count :: TickCount
  entries :: "(string \<times> packed) list"

definition IsUserDb :: "UserDb \<Rightarrow> bool" where
  "IsUserDb db = is_user_db db"

definition GetDbName :: "UserDb \<Rightarrow> string" where
  "GetDbName db = db_name db"

definition GetUserId :: "UserDb \<Rightarrow> string" where
  "GetUserId db = owner_id db"

definition GetTickCount :: "UserDb \<Rightarrow> TickCount" where
  "GetTickCount db = tick_count db"

definition Fetch :: "UserDb \<Rightarrow> string \<Rightarrow> packed option" where
  "Fetch db key = map_of (entries db) key"

fun update_entries :: "string \<Rightarrow> packed \<Rightarrow> (string \<times> packed) list \<Rightarrow> (string \<times> packed) list" where
  "update_entries key val [] = [(key, val)]"
| "update_entries key val ((k, x) # es) =
     (if key < k then (key, val) # (k, x) # es
      else if key = k then (key, val) # es
      else (k, x) # update_entries key val es)"

text \<open>
  Modelled from the spec: \<^verbatim>\<open>update(key, value) -> bool\<close> of the engine.
  \<^verbatim>\<open>Update\<close> returns whether the engine accepted the write. The engine's answer for a
  key is the parameter \<open>ok\<close>; a refused write leaves the store as it was.
\<close>

definition Update :: "(string \<Rightarrow> bool) \<Rightarrow> UserDb \<Rightarrow> string \<Rightarrow> packed \<Rightarrow> UserDb \<times> bool" where
  "Update ok db key val =
     (if ok key then (db\<lparr>entries := update_entries key val (entries db)\<rparr>, True)
      else (db, False))"

text \<open>
  Modelled from the spec: \<^verbatim>\<open>set_metadata(path, value)\<close> of the engine, one function
  for each of the two paths \<^verbatim>\<open>Restore\<close> writes: \<^verbatim>\<open>MetaUpdate("/tick", ...)\<close> with
  the decimal text of a tick, and \<^verbatim>\<open>MetaUpdate("/user_id", ...)\<close>.
  \<^verbatim>\<open>MetaUpdate\<close> may throw (the caller in \<^verbatim>\<open>Restore\<close> catches); \<open>None\<close> is the
  exception. Whether the engine accepts a write under a metadata path is the parameter
  \<open>mok\<close>.
\<close>

definition MetaUpdate_tick :: "(string \<Rightarrow> bool) \<Rightarrow> UserDb \<Rightarrow> TickCount \<Rightarrow> UserDb option" where
  "MetaUpdate_tick mok db t =
     (if mok ''/tick'' then Some (db\<lparr>tick_count := t\<rparr>) else None)"

definition MetaUpdate_user_id :: "(string \<Rightarrow> bool) \<Rightarrow> UserDb \<Rightarrow> string \<Rightarrow> UserDb option" where
  "MetaUpdate_user_id mok db uid =
     (if mok ''/user_id'' then Some (db\<lparr>owner_id := uid\<rparr>) else None)"

text \<open>
  Modelled from the spec: \<^verbatim>\<open>open_cursor(prefix)\<close> with \<^verbatim>\<open>jump(key)\<close> and
  \<^verbatim>\<open>next()\<close>. \<^verbatim>\<open>Query(prefix)\<close> ranges over the records whose key starts with the
  prefix, \<^verbatim>\<open>Jump(key)\<close> moves it to the first record whose key is not below the given
  one, and \<^verbatim>\<open>GetNextRecord\<close> then yields the remaining records in ascending key order.
  The cursor is the list of records still to be yielded.
\<close>

definition Query :: "UserDb \<Rightarrow> string \<Rightarrow> (string \<times> packed) list" where
  "Query db pre = filter (\<lambda>(k, x). take (length pre) k = pre) (entries db)"

definition Jump :: "(string \<times> packed) list \<Rightarrow> string \<Rightarrow> (string \<times> packed) list" where
  "Jump a key = dropWhile (\<lambda>(k, x). k < key) a"

subsection \<open>The merge of Restore (lines 104 to 140)\<close>

text \<open>\<^verbatim>\<open>key.find('\t')\<close>: the position of the first tab, \<open>None\<close> for \<^verbatim>\<open>npos\<close>.\<close>

fun find_char :: "char \<Rightarrow> string \<Rightarrow> nat option" where
  "find_char c [] = None"
| "find_char c (x # xs) = (if x = c then Some 0 else map_option Suc (find_char c xs))"

definition tab :: char where
  "tab = CHR 0x09"

definition space :: char where
  "space = CHR '' ''"

text \<open>
  Lines 112 to 117: a key with no tab, or with the tab in front, is passed over
  (\<open>None\<close> for \<^verbatim>\<open>continue\<close>); otherwise a space is inserted before the tab when the
  character before the tab is not one.
\<close>

definition fix_key :: "string \<Rightarrow> string option" where
  "fix_key key =
     (case find_char tab key of
        None \<Rightarrow> None
      | Some tab_pos \<Rightarrow>
          if tab_pos = 0 then None
          else if key ! (tab_pos - 1) \<noteq> space
               then Some (take tab_pos key @ [space] @ drop tab_pos key)
               else Some key)"

text \<open>
  Lines 119 to 120 and 123 to 124: a value whose stamp is older than the clock of its
  own store has its weight rescaled to that clock.
\<close>

definition decay :: "formula \<Rightarrow> TickCount \<Rightarrow> UserDbValue \<Rightarrow> UserDbValue" where
  "decay fd t v = (if tick v < t then v\<lparr>dee := fd 0 (real t) (dee v) (real (tick v))\<rparr> else v)"

text \<open>Lines 118 to 128: the value written for a key, from what both sides hold.\<close>

definition resolve ::
  "formula \<Rightarrow> TickCount \<Rightarrow> TickCount \<Rightarrow> TickCount \<Rightarrow> packed option \<Rightarrow> packed \<Rightarrow> UserDbValue" where
  "resolve fd tick_left tick_right tick_max fetched right =
     (let v = decay fd tick_right (Unpack right);
          v = (case fetched of
                 Some left \<Rightarrow>
                   (let u = decay fd tick_left (Unpack left)
                    in v\<lparr>commits := max (commits v) (commits u), dee := max (dee v) (dee u)\<rparr>)
               | None \<Rightarrow> v)
      in v\<lparr>tick := tick_max\<rparr>)"

text \<open>
  Lines 111 to 131: the scan over the records the cursor yields. \<open>num_entries\<close> counts
  the accepted writes (a C++ \<^verbatim>\<open>int\<close>; a count beyond its range is outside the model).
\<close>

fun merge_loop ::
  "formula \<Rightarrow> (string \<Rightarrow> bool) \<Rightarrow> TickCount \<Rightarrow> TickCount \<Rightarrow> TickCount \<Rightarrow>
   (string \<times> packed) list \<Rightarrow> UserDb \<Rightarrow> nat \<Rightarrow> UserDb \<times> nat" where
  "merge_loop fd ok tick_left tick_right tick_max [] dest num_entries = (dest, num_entries)"
| "merge_loop fd ok tick_left tick_right tick_max ((key, right) # a) dest num_entries =
     (case fix_key key of
        None \<Rightarrow> merge_loop fd ok tick_left tick_right tick_max a dest num_entries
      | Some key' \<Rightarrow>
          (case Update ok dest key'
                  (Pack (resolve fd tick_left tick_right tick_max (Fetch dest key') right)) of
             (dest', written) \<Rightarrow>
               merge_loop fd ok tick_left tick_right tick_max a dest'
                 (if written then num_entries + 1 else num_entries)))"

text \<open>Lines 132 to 140: the clock and the owner follow only when something was merged.\<close>

definition update_meta :: "(string \<Rightarrow> bool) \<Rightarrow> string \<Rightarrow> TickCount \<Rightarrow> UserDb \<Rightarrow> nat \<Rightarrow> UserDb" where
  "update_meta mok local_id tick_max dest num_entries =
     (if num_entries > 0 then
        (case MetaUpdate_tick mok dest tick_max of
           None \<Rightarrow> dest
         | Some dest1 \<Rightarrow>
             (case MetaUpdate_user_id mok dest1 local_id of
                None \<Rightarrow> dest1
              | Some dest2 \<Rightarrow> dest2))
      else dest)"

text \<open>
  Lines 104 to 140, with both stores open: the destination after the merge and the
  number of entries merged (which \<^verbatim>\<open>Restore\<close> logs).
\<close>

definition merge ::
  "formula \<Rightarrow> string \<Rightarrow> (string \<Rightarrow> bool) \<Rightarrow> (string \<Rightarrow> bool) \<Rightarrow> UserDb \<Rightarrow> UserDb \<Rightarrow> UserDb \<times> nat" where
  "merge fd local_id ok mok dest temp =
     (let tick_left = GetTickCount dest;
          tick_right = GetTickCount temp;
          tick_max = max tick_left tick_right;
          a = Jump (Query temp []) [space]
      in case merge_loop fd ok tick_left tick_right tick_max a dest 0 of
           (dest', num_entries) \<Rightarrow>
             (update_meta mok local_id tick_max dest' num_entries, num_entries))"

subsection \<open>The world outside the manager\<close>

text \<open>
  Modelled from the spec: the configuration "user data root, sync root, local identity"
  that \<^verbatim>\<open>Deployer\<close> (rime/deployer.h, not under src/) holds;
  \<open>user_data_sync_dir\<close> stands for what the method of that name returns.
\<close>

record Deployer =
  user_data_dir :: string
  sync_dir :: string
  user_id :: string
  user_data_sync_dir :: string

text \<open>
  What \<^verbatim>\<open>create_directories\<close> answers on a path that does not exist: it creates the
  directory, it creates nothing and reports no error, or it fails.
\<close>

datatype mkdir_answer = Created | Not_created | Mkdir_failed

text \<open>
  Two calls of the manager raise \<^verbatim>\<open>filesystem_error\<close> outside any \<^verbatim>\<open>try\<close> block, and
  the error then leaves the operation and its callers: \<^verbatim>\<open>create_directories\<close> without
  an error code (line 66) when it fails, and the constructor of the directory iterator
  (line 267; line 42 is guarded) on a path that is not a directory. An operation that
  may raise returns the world it leaves together with the error or its result. The
  status queries (\<^verbatim>\<open>exists\<close>, \<^verbatim>\<open>is_directory\<close>), the reading of an open directory and
  the calls of the engine are taken to answer.
\<close>

datatype error = Filesystem_error

text \<open>
  Modelled from the spec: the external interfaces of section 6 (store engine and file
  layout; none of it is under src/). A world holds the stores by dictionary name (the
  store a handle of that name works on once opened), what each snapshot file restores
  to (\<open>None\<close>: \<^verbatim>\<open>Restore(file)\<close> of the engine fails), the lines of each text file,
  and the file system as far as the manager asks: which paths exist, which are
  directories, and the names a directory iterator yields. The remaining fields are the
  answers of the engine and of the operating system to the calls that can fail; they are
  fixed for a path or key, and no operation of the manager changes them.
  A created directory exists, is a directory and lists nothing; a written snapshot exists; the
  listings of the directories that were already there stay as given.
\<close>

record world =
  stores :: "string \<Rightarrow> UserDb"
  snapshot_files :: "string \<Rightarrow> UserDb option"
  text_files :: "string \<Rightarrow> string list"
  fs_exists :: "string \<Rightarrow> bool"
  fs_is_directory :: "string \<Rightarrow> bool"
  fs_entries :: "string \<Rightarrow> string list"
  open_ok :: "string \<Rightarrow> bool"
  open_read_only_ok :: "string \<Rightarrow> bool"
  close_ok :: "string \<Rightarrow> bool"
  create_metadata_ok :: "string \<Rightarrow> bool"
  update_ok :: "string \<Rightarrow> string \<Rightarrow> bool"
  meta_update_ok :: "string \<Rightarrow> string \<Rightarrow> bool"
  backup_ok :: "string \<Rightarrow> string \<Rightarrow> bool"
  create_directories_answer :: "string \<Rightarrow> mkdir_answer"

text \<open>\<^verbatim>\<open>fs::path::operator/\<close>: a separator is added unless one is already there.\<close>

definition path_append :: "string \<Rightarrow> string \<Rightarrow> string" where
  "path_append p f =
     (if p = [] \<or> last p = CHR ''/'' \<or> (f \<noteq> [] \<and> hd f = CHR ''/'') then p @ f
      else p @ CHR ''/'' # f)"

definition create_directories :: "world \<Rightarrow> string \<Rightarrow> world" where
  "create_directories w dir =
     w\<lparr>fs_exists := (fs_exists w)(dir := True),
       fs_is_directory := (fs_is_directory w)(dir := True),
       fs_entries := (fs_entries w)(dir := [])\<rparr>"

text \<open>
  Modelled from the spec: \<^verbatim>\<open>CreateMetadata\<close> "regenerates ownership metadata (claims
  it as locally owned without altering record data)".
\<close>

definition CreateMetadata :: "Deployer \<Rightarrow> UserDb \<Rightarrow> UserDb" where
  "CreateMetadata dp db = db\<lparr>owner_id := user_id dp\<rparr>"

subsection \<open>Restore (lines 76 to 144)\<close>

text \<open>
  The temporary store \<^verbatim>\<open>".temp"\<close> is removed before it is opened and again on every
  exit, so it holds exactly what the snapshot file restores to and leaves no trace in
  the world. The destination handle is closed on exit; what it wrote stays. The two
  handles are kept apart also when the snapshot names its dictionary ".temp".
\<close>

definition Restore :: "formula \<Rightarrow> Deployer \<Rightarrow> world \<Rightarrow> string \<Rightarrow> world \<times> bool" where
  "Restore fd dp w snapshot_file =
     (if \<not> open_ok w ''.temp'' then (w, False)
      else case snapshot_files w snapshot_file of
        None \<Rightarrow> (w, False)
      | Some temp \<Rightarrow>
          if \<not> IsUserDb temp then (w, False)
          else let db_name = GetDbName temp
               in if db_name = [] then (w, False)
                  else if \<not> open_ok w db_name then (w, False)
                  else case merge fd (user_id dp) (update_ok w db_name)
                              (meta_update_ok w db_name) (stores w db_name) temp of
                         (dest, num_entries) \<Rightarrow>
                           (w\<lparr>stores := (stores w)(db_name := dest)\<rparr>, True))"

subsection \<open>Backup (lines 53 to 74)\<close>

text \<open>
  \<open>extension\<close> is \<^verbatim>\<open>UserDb<TreeDb>::extension\<close>, a constant defined outside src/ and
  taken as a parameter.
\<close>

text \<open>
  Line 66 is \<^verbatim>\<open>create_directories\<close> without an error code: a failure is raised, and
  the \<^verbatim>\<open>return false\<close> of line 68 is taken when nothing was created and no error
  reported.
\<close>

definition Backup :: "Deployer \<Rightarrow> string \<Rightarrow> world \<Rightarrow> string \<Rightarrow> world \<times> (error + bool)" where
  "Backup dp extension w dict_name =
     (if \<not> open_read_only_ok w dict_name then (w, Inr False)
      else if GetUserId (stores w dict_name) \<noteq> user_id dp
              \<and> (\<not> close_ok w dict_name \<or> \<not> open_ok w dict_name
                   \<or> \<not> create_metadata_ok w dict_name)
      then (w, Inr False)
      else
        let w1 = (if GetUserId (stores w dict_name) \<noteq> user_id dp
                  then w\<lparr>stores := (stores w)
                           (dict_name := CreateMetadata dp (stores w dict_name))\<rparr>
                  else w);
            dir = user_data_sync_dir dp
        in if \<not> fs_exists w1 dir \<and> create_directories_answer w1 dir = Mkdir_failed
           then (w1, Inl Filesystem_error)
           else if \<not> fs_exists w1 dir \<and> create_directories_answer w1 dir = Not_created
           then (w1, Inr False)
           else
             let w2 = (if \<not> fs_exists w1 dir then create_directories w1 dir else w1);
                 snapshot_file = dict_name @ extension @ ''.snapshot'';
                 file = path_append dir snapshot_file
             in if backup_ok w2 dict_name file
                then (w2\<lparr>snapshot_files := (snapshot_files w2)(file := Some (stores w2 dict_name)),
                         fs_exists := (fs_exists w2)(file := True)\<rparr>, Inr True)
                else (w2, Inr False))"

subsection \<open>Synchronize (lines 256 to 288)\<close>

text \<open>
  Lines 271 to 282: the loop over the entries of the shared root. \<open>names\<close> are the
  entries the iterator still has to yield, \<open>success\<close> is the flag of the source.
\<close>

fun sync_loop ::
  "formula \<Rightarrow> Deployer \<Rightarrow> string \<Rightarrow> string \<Rightarrow> string list \<Rightarrow> world \<Rightarrow> bool \<Rightarrow> world \<times> bool" where
  "sync_loop fd dp dir snapshot_file [] w success = (w, success)"
| "sync_loop fd dp dir snapshot_file (name # names) w success =
     (if \<not> fs_is_directory w (path_append dir name)
      then sync_loop fd dp dir snapshot_file names w success
      else
        let file_path = path_append (path_append dir name) snapshot_file
        in if fs_exists w file_path
           then (case Restore fd dp w file_path of
                   (w', merged) \<Rightarrow>
                     sync_loop fd dp dir snapshot_file names w'
                       (if \<not> merged then False else success))
           else sync_loop fd dp dir snapshot_file names w success)"

text \<open>
  Line 262 is \<^verbatim>\<open>create_directories\<close> with an error code: every answer but a created
  directory is the \<^verbatim>\<open>return false\<close> of line 264. Line 267 opens the iterator on the
  shared root, which raises when the root is not a directory. An error raised by the
  Backup of line 283 leaves Synchronize too.
\<close>

definition Synchronize ::
  "formula \<Rightarrow> Deployer \<Rightarrow> string \<Rightarrow> world \<Rightarrow> string \<Rightarrow> world \<times> (error + bool)" where
  "Synchronize fd dp extension w dict_name =
     (if \<not> fs_exists w (sync_dir dp) \<and> create_directories_answer w (sync_dir dp) \<noteq> Created
      then (w, Inr False)
      else
        let w1 = (if \<not> fs_exists w (sync_dir dp) then create_directories w (sync_dir dp) else w)
        in if \<not> fs_is_directory w1 (sync_dir dp) then (w1, Inl Filesystem_error)
           else
             let snapshot_file = dict_name @ extension @ ''.snapshot''
             in case sync_loop fd dp (sync_dir dp) snapshot_file
                       (fs_entries w1 (sync_dir dp)) w1 True of
                  (w2, success) \<Rightarrow>
                    (case Backup dp extension w2 dict_name of
                       (w3, Inl raised) \<Rightarrow> (w3, Inl raised)
                     | (w3, Inr backed_up) \<Rightarrow>
                         (w3, Inr (if \<not> backed_up then False else success))))"

subsection \<open>SynchronizeAll (lines 290 to 299) and GetUserDictList (lines 35 to 51)\<close>

text \<open>
  \<^verbatim>\<open>boost::ends_with\<close> and \<^verbatim>\<open>boost::erase_last\<close>: the last occurrence of the
  extension in a name that ends with it is the one at the end.
\<close>

definition ends_with :: "string \<Rightarrow> string \<Rightarrow> bool" where
  "ends_with name ext = (length ext \<le> length name \<and> drop (length name - length ext) name = ext)"

definition GetUserDictList :: "Deployer \<Rightarrow> string \<Rightarrow> world \<Rightarrow> string list" where
  "GetUserDictList dp extension w =
     (if \<not> fs_exists w (user_data_dir dp) \<or> \<not> fs_is_directory w (user_data_dir dp) then []
      else map (\<lambda>name. take (length name - length extension) name)
             (filter (\<lambda>name. ends_with name extension) (fs_entries w (user_data_dir dp))))"

text \<open>An error raised by a Synchronize leaves SynchronizeAll as well.\<close>

fun sync_all_loop ::
  "formula \<Rightarrow> Deployer \<Rightarrow> string \<Rightarrow> string list \<Rightarrow> world \<Rightarrow> world \<times> (error + bool)" where
  "sync_all_loop fd dp extension [] w = (w, Inr True)"
| "sync_all_loop fd dp extension (dict_name # user_dicts) w =
     (case Synchronize fd dp extension w dict_name of
        (w', Inl raised) \<Rightarrow> (w', Inl raised)
      | (w', Inr synced) \<Rightarrow>
          if \<not> synced then (w', Inr False)
          else sync_all_loop fd dp extension user_dicts w')"

definition SynchronizeAll ::
  "formula \<Rightarrow> Deployer \<Rightarrow> string \<Rightarrow> world \<Rightarrow> world \<times> (error + bool)" where
  "SynchronizeAll fd dp extension w =
     sync_all_loop fd dp extension (GetUserDictList dp extension w) w"

subsection \<open>Import (lines 172 to 227)\<close>

text \<open>
  \<^verbatim>\<open>boost::algorithm::split\<close> with \<^verbatim>\<open>is_any_of\<close> of one character: the pieces between
  the separators, empty pieces included.
\<close>

fun split_on :: "char \<Rightarrow> string \<Rightarrow> string list" where
  "split_on c [] = [[]]"
| "split_on c (x # xs) =
     (if x = c then [] # split_on c xs
      else (case split_on c xs of [] \<Rightarrow> [[x]] | t # ts \<Rightarrow> (x # t) # ts))"

text \<open>With \<^verbatim>\<open>token_compress_on\<close> a run of adjacent separators counts as one.\<close>

function split_compress :: "char \<Rightarrow> string \<Rightarrow> string list" where
  "split_compress c [] = [[]]"
| "split_compress c (x # xs) =
     (if x = c then [] # split_compress c (dropWhile (\<lambda>y. y = c) xs)
      else (case split_compress c xs of [] \<Rightarrow> [[x]] | t # ts \<Rightarrow> (x # t) # ts))"
  by pat_completeness auto
termination
  by (relation "measure (\<lambda>(c, s). length s)") (auto simp: length_dropWhile_le less_Suc_eq_le)

text \<open>\<^verbatim>\<open>boost::algorithm::trim\<close> removes the white space of the classic locale at both ends.\<close>

definition is_space :: "char \<Rightarrow> bool" where
  "is_space c = (c \<in> {CHR '' '', CHR 0x09, CHR 0x0A, CHR 0x0B, CHR 0x0C, CHR 0x0D})"

definition trim :: "string \<Rightarrow> string" where
  "trim s = rev (dropWhile is_space (rev (dropWhile is_space s)))"

fun join :: "string \<Rightarrow> string list \<Rightarrow> string" where
  "join sep [] = []"
| "join sep [x] = x"
| "join sep (x # y # ys) = x @ sep @ join sep (y # ys)"

text \<open>
  Lines 188 to 214: the key and the usage count of a line, \<open>None\<close> when the line is
  passed over. \<open>lexical_cast_int\<close> is \<^verbatim>\<open>boost::lexical_cast<int>\<close>, \<open>None\<close> when it
  throws.
\<close>

definition import_entry :: "(string \<Rightarrow> int option) \<Rightarrow> string \<Rightarrow> (string \<times> int) option" where
  "import_entry lexical_cast_int line =
     (if line = [] \<or> hd line = CHR ''#'' then None
      else
        let row = split_on tab line
        in if length row < 2 \<or> row ! 0 = [] \<or> row ! 1 = [] then None
           else
             let row1 = trim (row ! 1);
                 row1 = (if row1 \<noteq> [] then join [space] (split_compress space row1) else row1);
                 key = row1 @ [space, tab] @ row ! 0;
                 count = (if length row \<ge> 3 \<and> row ! 2 \<noteq> []
                          then (case lexical_cast_int (row ! 2) of Some c \<Rightarrow> c | None \<Rightarrow> 0)
                          else 0)
             in Some (key, count))"

text \<open>Lines 215 to 221: the value written back, from the stored one and the count of the line.\<close>

definition import_value :: "packed option \<Rightarrow> int \<Rightarrow> UserDbValue" where
  "import_value fetched count =
     (let v = (case fetched of Some val \<Rightarrow> Unpack val | None \<Rightarrow> UserDbValue_default)
      in if count > 0 then v\<lparr>commits := max count (commits v)\<rparr>
         else if count < 0 then v\<lparr>commits := count\<rparr>
         else v)"

fun import_loop ::
  "(string \<Rightarrow> int option) \<Rightarrow> (string \<Rightarrow> bool) \<Rightarrow> string list \<Rightarrow> UserDb \<Rightarrow> nat \<Rightarrow> UserDb \<times> nat" where
  "import_loop lexical_cast_int ok [] db num_entries = (db, num_entries)"
| "import_loop lexical_cast_int ok (line # lines) db num_entries =
     (case import_entry lexical_cast_int line of
        None \<Rightarrow> import_loop lexical_cast_int ok lines db num_entries
      | Some (key, count) \<Rightarrow>
          (case Update ok db key (Pack (import_value (Fetch db key) count)) of
             (db', written) \<Rightarrow>
               import_loop lexical_cast_int ok lines db'
                 (if written then num_entries + 1 else num_entries)))"

definition Import :: "(string \<Rightarrow> int option) \<Rightarrow> world \<Rightarrow> string \<Rightarrow> string \<Rightarrow> world \<times> int" where
  "Import lexical_cast_int w dict_name text_file =
     (if \<not> open_ok w dict_name then (w, - 1)
      else if \<not> IsUserDb (stores w dict_name) then (w, - 1)
      else case import_loop lexical_cast_int (update_ok w dict_name) (text_files w text_file)
                  (stores w dict_name) 0 of
             (db, num_entries) \<Rightarrow>
               (w\<lparr>stores := (stores w)(dict_name := db)\<rparr>, int num_entries))"

subsection \<open>Notions used in the statements\<close>

text \<open>
  The records the scan of a snapshot yields (line 107 and 108), those among them that
  land on a given key once their own key is repaired, and their values after the
  rescaling of lines 119 and 120.
\<close>

definition scan :: "UserDb \<Rightarrow> (string \<times> packed) list" where
  "scan temp = Jump (Query temp []) [space]"

definition landing :: "(string \<times> packed) list \<Rightarrow> string \<Rightarrow> (string \<times> packed) list" where
  "landing a key = filter (\<lambda>(k, right). fix_key k = Some key) a"

definition incoming :: "formula \<Rightarrow> TickCount \<Rightarrow> (string \<times> packed) list \<Rightarrow> string \<Rightarrow> UserDbValue list" where
  "incoming fd tright a key = map (\<lambda>(k, right). decay fd tright (Unpack right)) (landing a key)"

text \<open>
  What the destination already holds for a key, as it enters the comparison of lines
  125 and 126, and the value a key holds after the scan: the largest count and the
  largest weight among the destination's record (when there is one) and the records of
  the snapshot that land on the key, stamped with the larger clock; a key on which no
  record lands keeps what it had.
\<close>

definition held_commits :: "packed option \<Rightarrow> int set" where
  "held_commits fetched = (case fetched of None \<Rightarrow> {} | Some left \<Rightarrow> {commits (Unpack left)})"

definition held_dee :: "formula \<Rightarrow> TickCount \<Rightarrow> packed option \<Rightarrow> real set" where
  "held_dee fd tleft fetched =
     (case fetched of None \<Rightarrow> {} | Some left \<Rightarrow> {dee (decay fd tleft (Unpack left))})"

definition merged_value ::
  "formula \<Rightarrow> TickCount \<Rightarrow> TickCount \<Rightarrow> TickCount \<Rightarrow> packed option \<Rightarrow> UserDbValue list \<Rightarrow> packed option" where
  "merged_value fd tleft tright tmax fetched vs =
     (if vs = [] then fetched
      else Some (Pack \<lparr>commits = Max (set (map commits vs) \<union> held_commits fetched),
                       dee = Max (set (map dee vs) \<union> held_dee fd tleft fetched),
                       tick = tmax\<rparr>))"

text \<open>The number of accepted writes of a scan: the final value of \<open>num_entries\<close>.\<close>

definition merged_count :: "(string \<Rightarrow> bool) \<Rightarrow> (string \<times> packed) list \<Rightarrow> nat" where
  "merged_count ok a =
     length (filter (\<lambda>(k, right). case fix_key k of None \<Rightarrow> False | Some key \<Rightarrow> ok key) a)"

text \<open>
  Lines 77 to 96 of \<^verbatim>\<open>Restore\<close>: the snapshot that is merged, \<open>None\<close> when one of
  the checks before the merge fails.
\<close>

definition restore_target :: "world \<Rightarrow> string \<Rightarrow> UserDb option" where
  "restore_target w snapshot_file =
     (if open_ok w ''.temp'' then
        (case snapshot_files w snapshot_file of
           None \<Rightarrow> None
         | Some temp \<Rightarrow>
             if IsUserDb temp \<and> GetDbName temp \<noteq> [] \<and> open_ok w (GetDbName temp)
             then Some temp else None)
      else None)"

text \<open>A key is in a snapshot when the scan yields a record that lands on it.\<close>

definition in_snapshot :: "UserDb \<Rightarrow> string \<Rightarrow> bool" where
  "in_snapshot temp key = (landing (scan temp) key \<noteq> [])"

text \<open>
  What a restore makes of the store of a given name, from the snapshot its checks let
  through: the merge when the snapshot names that store, the store as it was otherwise.
\<close>

definition restored :: "formula \<Rightarrow> Deployer \<Rightarrow> world \<Rightarrow> UserDb option \<Rightarrow> string \<Rightarrow> UserDb \<Rightarrow> UserDb" where
  "restored fd dp w target name d =
     (case target of
        None \<Rightarrow> d
      | Some temp \<Rightarrow>
          if name = GetDbName temp
          then fst (merge fd (user_id dp) (update_ok w name) (meta_update_ok w name) d temp)
          else d)"

text \<open>
  Synchronize as the specification words it (this definition follows the specification,
  not the source): every snapshot file of the dictionary found in a peer directory
  under the shared root is merged, one after the other and whatever the outcome of the
  ones before; then the dictionary is backed up; the result is success only if every
  merge and the backup succeeded. An error the backup raises is the outcome in place
  of a result.
\<close>

fun restore_all :: "formula \<Rightarrow> Deployer \<Rightarrow> string list \<Rightarrow> world \<Rightarrow> world \<times> bool list" where
  "restore_all fd dp [] w = (w, [])"
| "restore_all fd dp (file # files) w =
     (case Restore fd dp w file of
        (w1, merged) \<Rightarrow>
          (case restore_all fd dp files w1 of (w2, results) \<Rightarrow> (w2, merged # results)))"

definition peer_snapshots :: "world \<Rightarrow> string \<Rightarrow> string \<Rightarrow> string list \<Rightarrow> string list" where
  "peer_snapshots w dir snapshot_file names =
     map (\<lambda>name. path_append (path_append dir name) snapshot_file)
       (filter (\<lambda>name. fs_is_directory w (path_append dir name)
                        \<and> fs_exists w (path_append (path_append dir name) snapshot_file)) names)"

definition Synchronize_spec ::
  "formula \<Rightarrow> Deployer \<Rightarrow> string \<Rightarrow> world \<Rightarrow> string \<Rightarrow> world \<times> (error + bool)" where
  "Synchronize_spec fd dp extension w dict_name =
     (case restore_all fd dp
             (peer_snapshots w (sync_dir dp) (dict_name @ extension @ ''.snapshot'')
                (fs_entries w (sync_dir dp))) w of
        (w1, results) \<Rightarrow>
          (case Backup dp extension w1 dict_name of
             (w2, Inl raised) \<Rightarrow> (w2, Inl raised)
           | (w2, Inr backed_up) \<Rightarrow>
               (w2, Inr (list_all (\<lambda>merged. merged) results \<and> backed_up))))"

text \<open>
  Synchronizing a list of dictionaries in turn: the world it leaves, and whether every
  one of them succeeded.
\<close>

definition sync_run :: "formula \<Rightarrow> Deployer \<Rightarrow> string \<Rightarrow> string list \<Rightarrow> world \<Rightarrow> world" where
  "sync_run fd dp extension user_dicts w =
     foldl (\<lambda>w dict_name. fst (Synchronize fd dp extension w dict_name)) w user_dicts"

fun all_synced :: "formula \<Rightarrow> Deployer \<Rightarrow> string \<Rightarrow> string list \<Rightarrow> world \<Rightarrow> bool" where
  "all_synced fd dp extension [] w = True"
| "all_synced fd dp extension (dict_name # user_dicts) w =
     (snd (Synchronize fd dp extension w dict_name) = Inr True
      \<and> all_synced fd dp extension user_dicts (fst (Synchronize fd dp extension w dict_name)))"

subsection \<open>Concrete stores used to exercise the statements\<close>

text \<open>
  A decay curve of the shape the spec asks for: it leaves the weight as it is when both
  ticks agree and shrinks it as the distance grows.
\<close>

definition example_formula :: formula where
  "example_formula d t da ta = d + da / (1 + (t - ta))"

text \<open>
  The end-to-end example of the spec: a dictionary at clock 5 with one record, and a
  snapshot at clock 7 with the same entry, here under a key that lacks the space.
\<close>

definition example_dest :: UserDb where
  "example_dest =
     \<lparr>db_name = ''luna'', is_user_db = True, owner_id = ''peer'', tick_count = 5,
      entries = [(''ab '' @ tab # ''cd'', \<lparr>commits = 2, dee = 1, tick = 3\<rparr>)]\<rparr>"

definition example_snapshot :: UserDb where
  "example_snapshot =
     \<lparr>db_name = ''luna'', is_user_db = True, owner_id = ''peer'', tick_count = 7,
      entries = [(''ab'' @ tab # ''cd'', \<lparr>commits = 5, dee = 0.2, tick = 7\<rparr>)]\<rparr>"

text \<open>
  Two more snapshots of the same dictionary: one exported later, at clock 9, with a
  different entry, and one exported earlier, at clock 6, with the same entry as the
  first.
\<close>

definition example_later_snapshot :: UserDb where
  "example_later_snapshot =
     \<lparr>db_name = ''luna'', is_user_db = True, owner_id = ''other'', tick_count = 9,
      entries = [(''xy '' @ tab # ''z'', \<lparr>commits = 1, dee = 1, tick = 9\<rparr>)]\<rparr>"

definition example_earlier_snapshot :: UserDb where
  "example_earlier_snapshot =
     \<lparr>db_name = ''luna'', is_user_db = True, owner_id = ''third'', tick_count = 6,
      entries = [(''ab '' @ tab # ''cd'', \<lparr>commits = 9, dee = 0.5, tick = 6\<rparr>)]\<rparr>"

text \<open>
  A world around them: the dictionary "luna", three peer directories under the shared
  root, each with a snapshot of it, and an engine that accepts every call.
\<close>

definition example_deployer :: Deployer where
  "example_deployer =
     \<lparr>user_data_dir = ''rime'', sync_dir = ''sync'', user_id = ''local'',
      user_data_sync_dir = ''sync/local''\<rparr>"

definition example_world :: world where
  "example_world =
     \<lparr>stores = (\<lambda>name. if name = ''luna'' then example_dest
                 else \<lparr>db_name = name, is_user_db = True, owner_id = ''local'', tick_count = 0,
                       entries = []\<rparr>),
      snapshot_files = (\<lambda>path. if path = ''sync/peer/luna.db.snapshot''
                                then Some example_snapshot
                                else if path = ''sync/other/luna.db.snapshot''
                                then Some example_later_snapshot
                                else if path = ''sync/third/luna.db.snapshot''
                                then Some example_earlier_snapshot
                                else None),
      text_files = (\<lambda>path. []),
      fs_exists = (\<lambda>path. path \<in> set [''rime'', ''sync'', ''sync/peer'', ''sync/other'',
                                         ''sync/third'', ''sync/peer/luna.db.snapshot'',
                                         ''sync/other/luna.db.snapshot'',
                                         ''sync/third/luna.db.snapshot'']),
      fs_is_directory = (\<lambda>path. path \<in> set [''rime'', ''sync'', ''sync/peer'', ''sync/other'',
                                               ''sync/third'']),
      fs_entries = (\<lambda>path. if path = ''sync'' then [''other'', ''peer'', ''third'']
                            else if path = ''rime'' then [''luna.db''] else []),
      open_ok = (\<lambda>name. True),
      open_read_only_ok = (\<lambda>name. True),
      close_ok = (\<lambda>name. True),
      create_metadata_ok = (\<lambda>name. True),
      update_ok = (\<lambda>name key. True),
      meta_update_ok = (\<lambda>name path. True),
      backup_ok = (\<lambda>name path. True),
      create_directories_answer = (\<lambda>path. Created)\<rparr>"

text \<open>A reading of the usage counts that occur in the examples.\<close>

definition example_lexical_cast :: "string \<Rightarrow> int option" where
  "example_lexical_cast s =
     (if s = ''0'' then Some 0 else if s = ''-1'' then Some (- 1)
      else if s = ''3'' then Some 3 else if s = ''7'' then Some 7 else None)"

section \<open>Properties\<close>

subsection \<open>The store and the scan\<close>

lemma map_of_update_entries:
  "map_of (update_entries key val es) = (map_of es)(key \<mapsto> val)"
  by (induction es) (auto simp: fun_eq_iff)

lemma Fetch_Update:
  "Fetch (fst (Update ok db key val)) k = (if ok key \<and> k = key then Some val else Fetch db k)"
  by (simp add: Fetch_def Update_def map_of_update_entries)

lemma Update_meta:
  "tick_count (fst (Update ok db key val)) = tick_count db"
  "owner_id (fst (Update ok db key val)) = owner_id db"
  "db_name (fst (Update ok db key val)) = db_name db"
  "is_user_db (fst (Update ok db key val)) = is_user_db db"
  by (simp_all add: Update_def)

text \<open>A write keeps the keys of the store in strictly ascending order.\<close>

lemma set_update_entries:
  "set (map fst (update_entries key val es)) = insert key (set (map fst es))"
  by (simp add: dom_map_of_conv_image_fst [symmetric] map_of_update_entries)

lemma sorted_update_entries:
  "sorted_wrt (<) (map fst es) \<Longrightarrow> sorted_wrt (<) (map fst (update_entries key val es))"
proof (induction es)
  case Nil
  then show ?case by simp
next
  case (Cons e es)
  obtain k x where e: "e = (k, x)" by (cases e)
  have ks: "\<forall>k' \<in> set (map fst es). k < k'" using Cons.prems e by auto
  show ?case
  proof (cases "key < k")
    case True
    then show ?thesis using Cons.prems e by (auto simp: e)
  next
    case False
    show ?thesis
    proof (cases "key = k")
      case True
      then show ?thesis using Cons.prems e by simp
    next
      case ne: False
      then have "k < key" using False by auto
      then have "\<forall>k' \<in> set (map fst (update_entries key val es)). k < k'"
        using ks unfolding set_update_entries by simp
      then show ?thesis using Cons e False ne by auto
    qed
  qed
qed

lemma merge_loop_Cons:
  "merge_loop fd ok tleft tright tmax ((key, right) # a) dest n =
     (case fix_key key of
        None \<Rightarrow> merge_loop fd ok tleft tright tmax a dest n
      | Some key' \<Rightarrow>
          merge_loop fd ok tleft tright tmax a
            (fst (Update ok dest key' (Pack (resolve fd tleft tright tmax (Fetch dest key') right))))
            (if ok key' then n + 1 else n))"
  by (simp add: Update_def split: option.splits)

lemma merge_loop_meta:
  "tick_count (fst (merge_loop fd ok tleft tright tmax a dest n)) = tick_count dest \<and>
   owner_id (fst (merge_loop fd ok tleft tright tmax a dest n)) = owner_id dest \<and>
   db_name (fst (merge_loop fd ok tleft tright tmax a dest n)) = db_name dest \<and>
   is_user_db (fst (merge_loop fd ok tleft tright tmax a dest n)) = is_user_db dest"
proof (induction a arbitrary: dest n)
  case Nil
  then show ?case by simp
next
  case (Cons p a)
  obtain key right where p: "p = (key, right)" by (cases p)
  show ?case
    unfolding p merge_loop_Cons
    by (cases "fix_key key") (simp_all add: Cons.IH Update_meta)
qed

lemma find_char_None: "find_char c s = None \<longleftrightarrow> c \<notin> set s"
  by (induction s) auto

lemma find_char_append: "c \<notin> set pre \<Longrightarrow> find_char c (pre @ c # post) = Some (length pre)"
  by (induction pre) auto

lemma fix_key_skip: "tab \<notin> set key \<or> (\<exists>r. key = tab # r) \<Longrightarrow> fix_key key = None"
proof (erule disjE)
  assume "tab \<notin> set key"
  then have "find_char tab key = None" by (simp add: find_char_None)
  then show ?thesis by (simp add: fix_key_def)
next
  assume "\<exists>r. key = tab # r"
  then show ?thesis by (auto simp: fix_key_def)
qed

lemma fix_key_insert:
  assumes "tab \<notin> set pre" "c \<noteq> tab" "c \<noteq> space"
  shows "fix_key (pre @ c # tab # post) = Some (pre @ c # space # tab # post)"
proof -
  have "tab \<notin> set (pre @ [c])" using assms by auto
  then have "find_char tab ((pre @ [c]) @ tab # post) = Some (length (pre @ [c]))"
    by (rule find_char_append)
  then have f: "find_char tab (pre @ c # tab # post) = Some (Suc (length pre))" by simp
  have n: "(pre @ c # tab # post) ! length pre = c" by simp
  show ?thesis using assms(3) by (simp add: fix_key_def f n)
qed

lemma fix_key_keep:
  assumes "tab \<notin> set pre"
  shows "fix_key (pre @ space # tab # post) = Some (pre @ space # tab # post)"
proof -
  have "tab \<notin> set (pre @ [space])" using assms by (auto simp: tab_def space_def)
  then have "find_char tab ((pre @ [space]) @ tab # post) = Some (length (pre @ [space]))"
    by (rule find_char_append)
  then have f: "find_char tab (pre @ space # tab # post) = Some (Suc (length pre))" by simp
  have n: "(pre @ space # tab # post) ! length pre = space" by simp
  show ?thesis by (simp add: fix_key_def f n)
qed

subsection \<open>What a merge leaves under each key\<close>

lemma Max_absorb:
  assumes "finite A" "finite B" "B \<noteq> {}"
  shows "Max (A \<union> {Max B}) = Max (A \<union> B)"
proof (cases "A = {}")
  case True
  then show ?thesis by simp
next
  case False
  then show ?thesis using assms by (simp add: Max_Un max.commute)
qed

lemma decay_fields: "commits (decay fd t v) = commits v" "tick (decay fd t v) = tick v"
  by (simp_all add: decay_def)

lemma resolve_commits:
  "commits (resolve fd tleft tright tmax fetched right) =
     Max ({commits (decay fd tright (Unpack right))} \<union> held_commits fetched)"
proof (cases fetched)
  case None
  then show ?thesis by (simp add: resolve_def held_commits_def)
next
  case (Some left)
  then show ?thesis by (simp add: resolve_def held_commits_def Let_def decay_fields)
qed

lemma resolve_dee:
  "dee (resolve fd tleft tright tmax fetched right) =
     Max ({dee (decay fd tright (Unpack right))} \<union> held_dee fd tleft fetched)"
proof (cases fetched)
  case None
  then show ?thesis by (simp add: resolve_def held_dee_def)
next
  case (Some left)
  then show ?thesis by (simp add: resolve_def held_dee_def Let_def)
qed

lemma resolve_tick: "tick (resolve fd tleft tright tmax fetched right) = tmax"
  by (simp add: resolve_def Let_def)

lemmas resolve_fields = resolve_commits resolve_dee resolve_tick

lemma held_after_write:
  assumes "tleft \<le> tick v"
  shows "held_dee fd tleft (Some (Pack v)) = {dee v}" "held_commits (Some (Pack v)) = {commits v}"
  using assms by (simp_all add: held_dee_def held_commits_def decay_def Pack_def Unpack_def)

lemma foldl_resolve:
  assumes "tleft \<le> tmax"
  shows "foldl (\<lambda>cur (k, right). Some (Pack (resolve fd tleft tright tmax cur right))) fetched l =
         merged_value fd tleft tright tmax fetched (map (\<lambda>(k, right). decay fd tright (Unpack right)) l)"
proof (induction l arbitrary: fetched)
  case Nil
  then show ?case by (simp add: merged_value_def)
next
  case (Cons p l)
  obtain k right where p: "p = (k, right)" by (cases p)
  let ?v = "decay fd tright (Unpack right)"
  let ?r = "resolve fd tleft tright tmax fetched right"
  let ?vs = "map (\<lambda>(k, right). decay fd tright (Unpack right)) l"
  have fin: "finite (held_commits fetched)" "finite (held_dee fd tleft fetched)"
    by (simp_all add: held_commits_def held_dee_def split: option.splits)
  have r: "?r = \<lparr>commits = Max ({commits ?v} \<union> held_commits fetched),
                  dee = Max ({dee ?v} \<union> held_dee fd tleft fetched), tick = tmax\<rparr>"
    by (rule UserDbValue.equality) (simp_all add: resolve_fields)
  have step: "foldl (\<lambda>cur (k, right). Some (Pack (resolve fd tleft tright tmax cur right))) fetched (p # l)
     = merged_value fd tleft tright tmax (Some (Pack ?r)) ?vs"
    by (simp add: p Cons.IH)
  show ?case
  proof (cases "l = []")
    case True
    then show ?thesis unfolding step by (simp add: merged_value_def p r)
  next
    case False
    have hd: "held_dee fd tleft (Some (Pack ?r)) = {dee ?r}"
      and hc: "held_commits (Some (Pack ?r)) = {commits ?r}"
      using assms by (simp_all add: held_after_write resolve_fields)
    have c: "Max (set (map commits ?vs) \<union> {commits ?r}) =
             Max (set (map commits (?v # ?vs)) \<union> held_commits fetched)"
      using fin Max_absorb [of "set (map commits ?vs)" "{commits ?v} \<union> held_commits fetched"]
      by (simp add: resolve_fields insert_commute)
    have d: "Max (set (map dee ?vs) \<union> {dee ?r}) =
             Max (set (map dee (?v # ?vs)) \<union> held_dee fd tleft fetched)"
      using fin Max_absorb [of "set (map dee ?vs)" "{dee ?v} \<union> held_dee fd tleft fetched"]
      by (simp add: resolve_fields insert_commute)
    show ?thesis
      unfolding step using False c d
      by (simp add: merged_value_def p hd hc)
  qed
qed

lemma Fetch_merge_loop_fold:
  "Fetch (fst (merge_loop fd ok tleft tright tmax a dest n)) key =
     (if ok key
      then foldl (\<lambda>cur (k, right). Some (Pack (resolve fd tleft tright tmax cur right)))
             (Fetch dest key) (landing a key)
      else Fetch dest key)"
proof (induction a arbitrary: dest n)
  case Nil
  then show ?case by (simp add: landing_def)
next
  case (Cons p a)
  obtain k right where p: "p = (k, right)" by (cases p)
  show ?case
  proof (cases "fix_key k")
    case None
    then show ?thesis by (simp add: p Cons.IH landing_def)
  next
    case (Some key')
    have "merge_loop fd ok tleft tright tmax (p # a) dest n =
          merge_loop fd ok tleft tright tmax a
            (fst (Update ok dest key' (Pack (resolve fd tleft tright tmax (Fetch dest key') right))))
            (if ok key' then n + 1 else n)"
      unfolding p merge_loop_Cons by (simp add: Some)
    then show ?thesis
      using Some by (simp add: p Cons.IH landing_def Fetch_Update del: merge_loop.simps)
  qed
qed

lemma Fetch_merge_loop:
  assumes "tleft \<le> tmax"
  shows "Fetch (fst (merge_loop fd ok tleft tright tmax a dest n)) key =
     (if ok key then merged_value fd tleft tright tmax (Fetch dest key) (incoming fd tright a key)
      else Fetch dest key)"
  by (simp add: Fetch_merge_loop_fold foldl_resolve [OF assms] incoming_def)

lemma snd_merge_loop:
  "snd (merge_loop fd ok tleft tright tmax a dest n) = n + merged_count ok a"
proof (induction a arbitrary: dest n)
  case Nil
  then show ?case by (simp add: merged_count_def)
next
  case (Cons p a)
  obtain k right where p: "p = (k, right)" by (cases p)
  show ?case
    unfolding p merge_loop_Cons
    by (cases "fix_key k") (simp_all add: Cons.IH merged_count_def del: merge_loop.simps)
qed

lemma Fetch_update_meta: "Fetch (update_meta mok uid t d n) key = Fetch d key"
  by (simp add: update_meta_def Fetch_def MetaUpdate_tick_def MetaUpdate_user_id_def)

lemma update_meta_fields:
  "tick_count (update_meta mok uid t d n) = (if 0 < n \<and> mok ''/tick'' then t else tick_count d)"
  "owner_id (update_meta mok uid t d n) =
     (if 0 < n \<and> mok ''/tick'' \<and> mok ''/user_id'' then uid else owner_id d)"
  "db_name (update_meta mok uid t d n) = db_name d"
  "is_user_db (update_meta mok uid t d n) = is_user_db d"
  by (simp_all add: update_meta_def MetaUpdate_tick_def MetaUpdate_user_id_def)

lemma merge_eq:
  "merge fd uid ok mok dest temp =
     (update_meta mok uid (max (tick_count dest) (tick_count temp))
        (fst (merge_loop fd ok (tick_count dest) (tick_count temp)
                (max (tick_count dest) (tick_count temp)) (scan temp) dest 0))
        (merged_count ok (scan temp)),
      merged_count ok (scan temp))"
  by (simp add: merge_def Let_def GetTickCount_def scan_def case_prod_beta snd_merge_loop)

lemma snd_merge: "snd (merge fd uid ok mok dest temp) = merged_count ok (scan temp)"
  by (simp add: merge_eq)

lemma Fetch_merge:
  "Fetch (fst (merge fd uid ok mok dest temp)) key =
     (if ok key
      then merged_value fd (tick_count dest) (tick_count temp)
             (max (tick_count dest) (tick_count temp)) (Fetch dest key)
             (incoming fd (tick_count temp) (scan temp) key)
      else Fetch dest key)"
  by (simp add: merge_eq Fetch_update_meta Fetch_merge_loop)

lemma merge_fields:
  "tick_count (fst (merge fd uid ok mok dest temp)) =
     (if 0 < merged_count ok (scan temp) \<and> mok ''/tick''
      then max (tick_count dest) (tick_count temp) else tick_count dest)"
  "owner_id (fst (merge fd uid ok mok dest temp)) =
     (if 0 < merged_count ok (scan temp) \<and> mok ''/tick'' \<and> mok ''/user_id''
      then uid else owner_id dest)"
  "db_name (fst (merge fd uid ok mok dest temp)) = db_name dest"
  "is_user_db (fst (merge fd uid ok mok dest temp)) = is_user_db dest"
  by (simp_all add: merge_eq update_meta_fields merge_loop_meta)

lemma merged_count_pos:
  "0 < merged_count ok a \<longleftrightarrow> (\<exists>k right key. (k, right) \<in> set a \<and> fix_key k = Some key \<and> ok key)"
proof -
  have "0 < merged_count ok a \<longleftrightarrow>
        (\<exists>p \<in> set a. case fix_key (fst p) of None \<Rightarrow> False | Some key \<Rightarrow> ok key)"
    by (simp add: merged_count_def filter_empty_conv case_prod_beta)
  also have "\<dots> \<longleftrightarrow> (\<exists>k right key. (k, right) \<in> set a \<and> fix_key k = Some key \<and> ok key)"
  proof
    assume "\<exists>p \<in> set a. case fix_key (fst p) of None \<Rightarrow> False | Some key \<Rightarrow> ok key"
    then obtain p where p: "p \<in> set a"
      and c: "case fix_key (fst p) of None \<Rightarrow> False | Some key \<Rightarrow> ok key" by blast
    from c obtain key where "fix_key (fst p) = Some key" "ok key"
      by (cases "fix_key (fst p)") auto
    with p have "(fst p, snd p) \<in> set a \<and> fix_key (fst p) = Some key \<and> ok key" by simp
    then show "\<exists>k right key. (k, right) \<in> set a \<and> fix_key k = Some key \<and> ok key" by blast
  next
    assume "\<exists>k right key. (k, right) \<in> set a \<and> fix_key k = Some key \<and> ok key"
    then obtain k right key where "(k, right) \<in> set a" "fix_key k = Some key" "ok key" by blast
    then show "\<exists>p \<in> set a. case fix_key (fst p) of None \<Rightarrow> False | Some key \<Rightarrow> ok key"
      by force
  qed
  finally show ?thesis .
qed

lemma incoming_nonempty:
  "incoming fd t a key \<noteq> [] \<longleftrightarrow> (\<exists>k right. (k, right) \<in> set a \<and> fix_key k = Some key)"
  by (auto simp: incoming_def landing_def filter_empty_conv)

lemma merged_count_incoming:
  "ok key \<Longrightarrow> incoming fd t a key \<noteq> [] \<Longrightarrow> 0 < merged_count ok a"
  unfolding merged_count_pos incoming_nonempty by blast

lemma Restore_eq:
  "Restore fd dp w f =
     (case restore_target w f of
        None \<Rightarrow> (w, False)
      | Some temp \<Rightarrow>
          (w\<lparr>stores := (stores w)
               (GetDbName temp :=
                  fst (merge fd (user_id dp) (update_ok w (GetDbName temp))
                         (meta_update_ok w (GetDbName temp)) (stores w (GetDbName temp)) temp))\<rparr>,
           True))"
  by (simp add: Restore_def restore_target_def Let_def case_prod_beta split: option.splits)

lemma restore_target_stores: "restore_target (w\<lparr>stores := s\<rparr>) f = restore_target w f"
  by (simp add: restore_target_def split: option.splits)

lemma Restore_frame:
  "snapshot_files (fst (Restore fd dp w f)) = snapshot_files w"
  "text_files (fst (Restore fd dp w f)) = text_files w"
  "fs_exists (fst (Restore fd dp w f)) = fs_exists w"
  "fs_is_directory (fst (Restore fd dp w f)) = fs_is_directory w"
  "fs_entries (fst (Restore fd dp w f)) = fs_entries w"
  "open_ok (fst (Restore fd dp w f)) = open_ok w"
  "open_read_only_ok (fst (Restore fd dp w f)) = open_read_only_ok w"
  "close_ok (fst (Restore fd dp w f)) = close_ok w"
  "create_metadata_ok (fst (Restore fd dp w f)) = create_metadata_ok w"
  "update_ok (fst (Restore fd dp w f)) = update_ok w"
  "meta_update_ok (fst (Restore fd dp w f)) = meta_update_ok w"
  "backup_ok (fst (Restore fd dp w f)) = backup_ok w"
  "create_directories_answer (fst (Restore fd dp w f)) = create_directories_answer w"
  by (simp_all add: Restore_eq split: option.splits)

lemma restore_target_Restore:
  "restore_target (fst (Restore fd dp w f)) g = restore_target w g"
  by (simp add: Restore_eq restore_target_stores split: option.splits)

lemma snd_Restore: "snd (Restore fd dp w f) \<longleftrightarrow> restore_target w f \<noteq> None"
  by (simp add: Restore_eq split: option.splits)

lemma merged_value_tick:
  assumes "vs \<noteq> []"
  shows "\<exists>val. merged_value fd tleft tright tmax fetched vs = Some val \<and> tick (Unpack val) = tmax"
  using assms by (simp add: merged_value_def Pack_def Unpack_def)

lemma merge_written_stamp:
  assumes "(k, right) \<in> set (scan temp)" "fix_key k = Some key" "ok key"
  shows "\<exists>val. Fetch (fst (merge fd uid ok mok dest temp)) key = Some val
           \<and> tick (Unpack val) = max (tick_count dest) (tick_count temp)"
proof -
  have "incoming fd (tick_count temp) (scan temp) key \<noteq> []"
    using assms(1,2) by (auto simp: incoming_nonempty)
  then show ?thesis using assms(3) by (simp add: Fetch_merge merged_value_tick)
qed

lemma held_finite: "finite (held_commits u)" "finite (held_dee fd t u)"
  by (simp_all add: held_commits_def held_dee_def split: option.splits)

lemma merged_value_twice:
  assumes "tleft2 \<le> tmax1" "va \<noteq> []" "vb \<noteq> []"
  shows "merged_value fd tleft2 tright2 tmax2 (merged_value fd tleft tright tmax1 u va) vb =
     Some (Pack \<lparr>commits = Max (set (map commits vb) \<union> (set (map commits va) \<union> held_commits u)),
                  dee = Max (set (map dee vb) \<union> (set (map dee va) \<union> held_dee fd tleft u)),
                  tick = tmax2\<rparr>)"
proof -
  let ?r = "\<lparr>commits = Max (set (map commits va) \<union> held_commits u),
              dee = Max (set (map dee va) \<union> held_dee fd tleft u), tick = tmax1\<rparr>"
  have inner: "merged_value fd tleft tright tmax1 u va = Some (Pack ?r)"
    using assms(2) by (simp add: merged_value_def)
  have h: "held_commits (Some (Pack ?r)) = {Max (set (map commits va) \<union> held_commits u)}"
    "held_dee fd tleft2 (Some (Pack ?r)) = {Max (set (map dee va) \<union> held_dee fd tleft u)}"
    using assms(1) by (simp_all add: held_after_write)
  have c: "Max (set (map commits vb) \<union> {Max (set (map commits va) \<union> held_commits u)}) =
           Max (set (map commits vb) \<union> (set (map commits va) \<union> held_commits u))"
    using assms(2) by (intro Max_absorb) (simp_all add: held_finite)
  have d: "Max (set (map dee vb) \<union> {Max (set (map dee va) \<union> held_dee fd tleft u)}) =
           Max (set (map dee vb) \<union> (set (map dee va) \<union> held_dee fd tleft u))"
    using assms(2) by (intro Max_absorb) (simp_all add: held_finite)
  show ?thesis
    unfolding inner merged_value_def [of fd tleft2] h c d using assms(3) by simp
qed

lemma merged_value_idem:
  assumes "tleft2 \<le> tmax"
  shows "merged_value fd tleft2 tright tmax (merged_value fd tleft tright tmax u vs) vs =
         merged_value fd tleft tright tmax u vs"
proof (cases "vs = []")
  case True
  then show ?thesis by (simp add: merged_value_def)
next
  case False
  have "merged_value fd tleft2 tright tmax (merged_value fd tleft tright tmax u vs) vs =
     Some (Pack \<lparr>commits = Max (set (map commits vs) \<union> (set (map commits vs) \<union> held_commits u)),
                  dee = Max (set (map dee vs) \<union> (set (map dee vs) \<union> held_dee fd tleft u)),
                  tick = tmax\<rparr>)"
    using assms False False by (rule merged_value_twice)
  also have "\<dots> = merged_value fd tleft tright tmax u vs"
    using False by (simp add: merged_value_def Un_assoc [symmetric])
  finally show ?thesis .
qed

lemma merge_twice:
  fixes fd uid ok mok dest temp
  defines "d1 \<equiv> fst (merge fd uid ok mok dest temp)"
  defines "d2 \<equiv> fst (merge fd uid ok mok d1 temp)"
  shows "Fetch d2 key = Fetch d1 key"
    and "tick_count d2 = tick_count d1"
    and "owner_id d2 = owner_id d1"
    and "db_name d2 = db_name d1"
    and "is_user_db d2 = is_user_db d1"
proof -
  let ?tl = "tick_count dest" and ?tr = "tick_count temp"
  have t1: "tick_count d1 = ?tl \<or> tick_count d1 = max ?tl ?tr"
    by (simp add: d1_def merge_fields)
  then have le: "tick_count d1 \<le> max ?tl ?tr" and mx: "max (tick_count d1) ?tr = max ?tl ?tr"
    by auto
  show "Fetch d2 key = Fetch d1 key"
    unfolding d2_def Fetch_merge mx
    unfolding d1_def Fetch_merge
    using le merged_value_idem [of "tick_count d1" "max ?tl ?tr" fd ?tr ?tl]
    by (simp add: d1_def)
  show "tick_count d2 = tick_count d1"
    unfolding d2_def merge_fields mx
    by (simp add: d1_def merge_fields)
  show "owner_id d2 = owner_id d1"
    unfolding d2_def merge_fields
    by (simp add: d1_def merge_fields)
  show "db_name d2 = db_name d1" "is_user_db d2 = is_user_db d1"
    by (simp_all add: d2_def merge_fields)
qed

text \<open>The definitions that evaluate the model at a concrete input.\<close>

lemmas model_defs = Restore_def merge_def update_meta_def MetaUpdate_tick_def MetaUpdate_user_id_def
  Query_def Jump_def GetTickCount_def GetUserId_def GetDbName_def IsUserDb_def fix_key_def tab_def
  space_def Update_def Fetch_def resolve_def decay_def Pack_def Unpack_def Let_def scan_def
  example_dest_def example_snapshot_def example_later_snapshot_def example_earlier_snapshot_def
  example_world_def example_deployer_def example_formula_def

text \<open>The definitions that evaluate an import at a concrete input.\<close>

lemmas import_defs = Import_def import_entry_def import_value_def trim_def is_space_def
  example_lexical_cast_def UserDbValue_default_def

text \<open>The definitions that evaluate a synchronization at a concrete input.\<close>

lemmas sync_defs = Synchronize_def Backup_def path_append_def create_directories_def
  CreateMetadata_def GetUserDictList_def ends_with_def SynchronizeAll_def

subsection \<open>C5: how the scan treats a key\<close>

text \<open>
  C5. For the record the cursor yields next, with key \<open>key\<close>: when the key holds no tab,
  or starts with the tab, the iteration changes nothing and the scan goes on with the
  rest (the record is skipped). When the key is \<open>pre @ c # tab # post\<close> with its first
  tab after a character \<open>c\<close> that is not a space, the record is merged under the key
  with one space put in before the tab. When the space is already there, the record is
  merged under the key as it is. In particular the key "ab<TAB>cd" becomes
  "ab <TAB>cd", and "ab <TAB>cd" stays.
\<close>

theorem merge_scan_key_handling:
  "(tab \<notin> set key \<or> (\<exists>r. key = tab # r) \<longrightarrow>
      merge_loop fd ok tleft tright tmax ((key, right) # a) dest n =
      merge_loop fd ok tleft tright tmax a dest n)
   \<and> (tab \<notin> set pre \<and> c \<noteq> tab \<and> c \<noteq> space \<longrightarrow>
      merge_loop fd ok tleft tright tmax ((pre @ c # tab # post, right) # a) dest n =
      (case Update ok dest (pre @ c # space # tab # post)
              (Pack (resolve fd tleft tright tmax
                       (Fetch dest (pre @ c # space # tab # post)) right)) of
         (dest', written) \<Rightarrow>
           merge_loop fd ok tleft tright tmax a dest' (if written then n + 1 else n)))
   \<and> (tab \<notin> set pre \<longrightarrow>
      merge_loop fd ok tleft tright tmax ((pre @ space # tab # post, right) # a) dest n =
      (case Update ok dest (pre @ space # tab # post)
              (Pack (resolve fd tleft tright tmax
                       (Fetch dest (pre @ space # tab # post)) right)) of
         (dest', written) \<Rightarrow>
           merge_loop fd ok tleft tright tmax a dest' (if written then n + 1 else n)))
   \<and> fix_key (''ab'' @ tab # ''cd'') = Some (''ab '' @ tab # ''cd'')
   \<and> fix_key (''ab '' @ tab # ''cd'') = Some (''ab '' @ tab # ''cd'')"
proof (intro conjI impI)
  assume "tab \<notin> set key \<or> (\<exists>r. key = tab # r)"
  then have "fix_key key = None" by (rule fix_key_skip)
  then show "merge_loop fd ok tleft tright tmax ((key, right) # a) dest n =
      merge_loop fd ok tleft tright tmax a dest n" by simp
next
  assume "tab \<notin> set pre \<and> c \<noteq> tab \<and> c \<noteq> space"
  then have "fix_key (pre @ c # tab # post) = Some (pre @ c # space # tab # post)"
    by (simp add: fix_key_insert)
  then show "merge_loop fd ok tleft tright tmax ((pre @ c # tab # post, right) # a) dest n =
      (case Update ok dest (pre @ c # space # tab # post)
              (Pack (resolve fd tleft tright tmax
                       (Fetch dest (pre @ c # space # tab # post)) right)) of
         (dest', written) \<Rightarrow>
           merge_loop fd ok tleft tright tmax a dest' (if written then n + 1 else n))"
    by simp
next
  assume "tab \<notin> set pre"
  then have "fix_key (pre @ space # tab # post) = Some (pre @ space # tab # post)"
    by (rule fix_key_keep)
  then show "merge_loop fd ok tleft tright tmax ((pre @ space # tab # post, right) # a) dest n =
      (case Update ok dest (pre @ space # tab # post)
              (Pack (resolve fd tleft tright tmax
                       (Fetch dest (pre @ space # tab # post)) right)) of
         (dest', written) \<Rightarrow>
           merge_loop fd ok tleft tright tmax a dest' (if written then n + 1 else n))"
    by simp
next
  show "fix_key (''ab'' @ tab # ''cd'') = Some (''ab '' @ tab # ''cd'')"
    by (simp add: fix_key_def tab_def space_def)
next
  show "fix_key (''ab '' @ tab # ''cd'') = Some (''ab '' @ tab # ''cd'')"
    by (simp add: fix_key_def tab_def space_def)
qed

text \<open>
  The three cases at the example store: a key without a tab is skipped, the key
  "ab<TAB>cd" of the example snapshot is merged under "ab <TAB>cd", and so is a key
  that already has the space.
\<close>

theorem merge_scan_key_handling_witness:
  "tab \<notin> set ''/tick''
   \<and> merge_loop example_formula (\<lambda>k. True) 5 7 7
        [(''/tick'', \<lparr>commits = 5, dee = 0.2, tick = 7\<rparr>)] example_dest 0 = (example_dest, 0)
   \<and> tab \<notin> set ''a'' \<and> CHR ''b'' \<noteq> tab \<and> CHR ''b'' \<noteq> space
   \<and> merge_loop example_formula (\<lambda>k. True) 5 7 7
        [(''ab'' @ tab # ''cd'', \<lparr>commits = 5, dee = 0.2, tick = 7\<rparr>)] example_dest 0 =
      (example_dest\<lparr>entries := [(''ab '' @ tab # ''cd'', \<lparr>commits = 5, dee = 1 / 3, tick = 7\<rparr>)]\<rparr>, 1)
   \<and> tab \<notin> set ''ab''
   \<and> merge_loop example_formula (\<lambda>k. True) 5 7 7
        [(''ab '' @ tab # ''cd'', \<lparr>commits = 5, dee = 0.2, tick = 7\<rparr>)] example_dest 0 =
      (example_dest\<lparr>entries := [(''ab '' @ tab # ''cd'', \<lparr>commits = 5, dee = 1 / 3, tick = 7\<rparr>)]\<rparr>, 1)"
  using merge_scan_key_handling [where key = "''/tick''" and pre = "''a''" and c = "CHR ''b''"
      and post = "''cd''" and fd = example_formula and ok = "\<lambda>k. True" and tleft = 5
      and tright = 7 and tmax = 7 and right = "\<lparr>commits = 5, dee = 0.2, tick = 7\<rparr>"
      and a = "[]" and dest = example_dest and n = 0]
    merge_scan_key_handling [where key = "''/tick''" and pre = "''ab''" and c = "CHR ''b''"
      and post = "''cd''" and fd = example_formula and ok = "\<lambda>k. True" and tleft = 5
      and tright = 7 and tmax = 7 and right = "\<lparr>commits = 5, dee = 0.2, tick = 7\<rparr>"
      and a = "[]" and dest = example_dest and n = 0]
  by (simp add: tab_def space_def example_dest_def example_formula_def Update_def Fetch_def
      Pack_def Unpack_def resolve_def decay_def fix_key_def)

subsection \<open>C1: merging the same snapshot twice\<close>

text \<open>
  C1. Restoring the same snapshot file a second time leaves every dictionary as the
  first restore left it: under every record key the same record (or none), the same
  logical clock and the same owner; and the second restore succeeds exactly when the
  first did. This holds whatever the engine answers to the writes, as long as it
  answers the same both times.
\<close>

theorem Restore_twice_same_state:
  "(\<forall>key. Fetch (stores (fst (Restore fd dp (fst (Restore fd dp w snapshot_file)) snapshot_file)) name) key
         = Fetch (stores (fst (Restore fd dp w snapshot_file)) name) key)
   \<and> GetTickCount (stores (fst (Restore fd dp (fst (Restore fd dp w snapshot_file)) snapshot_file)) name)
       = GetTickCount (stores (fst (Restore fd dp w snapshot_file)) name)
   \<and> GetUserId (stores (fst (Restore fd dp (fst (Restore fd dp w snapshot_file)) snapshot_file)) name)
       = GetUserId (stores (fst (Restore fd dp w snapshot_file)) name)
   \<and> snd (Restore fd dp (fst (Restore fd dp w snapshot_file)) snapshot_file)
       = snd (Restore fd dp w snapshot_file)"
proof (cases "restore_target w snapshot_file")
  case None
  then show ?thesis by (simp add: Restore_eq)
next
  case (Some temp)
  let ?n = "GetDbName temp"
  let ?w1 = "fst (Restore fd dp w snapshot_file)"
  let ?d1 = "fst (merge fd (user_id dp) (update_ok w ?n) (meta_update_ok w ?n) (stores w ?n) temp)"
  let ?d2 = "fst (merge fd (user_id dp) (update_ok w ?n) (meta_update_ok w ?n) ?d1 temp)"
  have w1: "?w1 = w\<lparr>stores := (stores w)(?n := ?d1)\<rparr>"
    by (simp add: Restore_eq Some)
  have t1: "restore_target ?w1 snapshot_file = Some temp"
    by (simp add: restore_target_Restore Some)
  have w2: "fst (Restore fd dp ?w1 snapshot_file) = ?w1\<lparr>stores := (stores ?w1)(?n := ?d2)\<rparr>"
    unfolding Restore_eq [of fd dp ?w1] t1 by (simp add: w1)
  have s: "snd (Restore fd dp ?w1 snapshot_file) = snd (Restore fd dp w snapshot_file)"
    by (simp add: snd_Restore t1 Some)
  show ?thesis
  proof (cases "name = ?n")
    case True
    have "stores (fst (Restore fd dp ?w1 snapshot_file)) name = ?d2"
      unfolding w2 by (simp add: True)
    moreover have "stores ?w1 name = ?d1" unfolding w1 by (simp add: True)
    ultimately show ?thesis
      using s by (simp add: merge_twice GetTickCount_def GetUserId_def)
  next
    case False
    have "stores (fst (Restore fd dp ?w1 snapshot_file)) name = stores ?w1 name"
      unfolding w2 using False by simp
    then show ?thesis using s by simp
  qed
qed

text \<open>The example: after one restore and after two, "luna" holds the same record at clock 7.\<close>

theorem Restore_twice_same_state_witness:
  "Fetch (stores (fst (Restore example_formula example_deployer
       (fst (Restore example_formula example_deployer example_world ''sync/peer/luna.db.snapshot''))
       ''sync/peer/luna.db.snapshot'')) ''luna'') (''ab '' @ tab # ''cd'')
     = Some \<lparr>commits = 5, dee = 1 / 3, tick = 7\<rparr>
   \<and> Fetch (stores (fst (Restore example_formula example_deployer example_world
       ''sync/peer/luna.db.snapshot'')) ''luna'') (''ab '' @ tab # ''cd'')
     = Some \<lparr>commits = 5, dee = 1 / 3, tick = 7\<rparr>
   \<and> GetTickCount (stores (fst (Restore example_formula example_deployer
       (fst (Restore example_formula example_deployer example_world ''sync/peer/luna.db.snapshot''))
       ''sync/peer/luna.db.snapshot'')) ''luna'') = 7"
  using Restore_twice_same_state [where fd = example_formula and dp = example_deployer
      and w = example_world and snapshot_file = "''sync/peer/luna.db.snapshot''"
      and name = "''luna''"]
  by (simp add: model_defs)

subsection \<open>C3: the clock and the stamps after a merge\<close>

text \<open>
  C3, as stated, fails: a restore of a snapshot at clock 7 that holds no record succeeds
  and leaves the destination at clock 5; and a restore that merges one record leaves the
  other record of the destination with its stamp 3 while the clock becomes 7.
\<close>

theorem Restore_clock_and_stamps_counterexample:
  "snd (Restore example_formula example_deployer
          (example_world\<lparr>snapshot_files := \<lambda>path. Some (example_snapshot\<lparr>entries := []\<rparr>)\<rparr>)
          ''sync/peer/luna.db.snapshot'') = True
   \<and> GetTickCount (stores (fst (Restore example_formula example_deployer
          (example_world\<lparr>snapshot_files := \<lambda>path. Some (example_snapshot\<lparr>entries := []\<rparr>)\<rparr>)
          ''sync/peer/luna.db.snapshot'')) ''luna'')
       < max (GetTickCount (stores example_world ''luna''))
             (GetTickCount (example_snapshot\<lparr>entries := []\<rparr>))
   \<and> snd (Restore example_formula example_deployer
          (example_world\<lparr>snapshot_files := \<lambda>path. Some (example_snapshot\<lparr>entries :=
              [(''xy '' @ tab # ''z'', \<lparr>commits = 1, dee = 1, tick = 7\<rparr>)]\<rparr>)\<rparr>)
          ''sync/peer/luna.db.snapshot'') = True
   \<and> Fetch (stores (fst (Restore example_formula example_deployer
          (example_world\<lparr>snapshot_files := \<lambda>path. Some (example_snapshot\<lparr>entries :=
              [(''xy '' @ tab # ''z'', \<lparr>commits = 1, dee = 1, tick = 7\<rparr>)]\<rparr>)\<rparr>)
          ''sync/peer/luna.db.snapshot'')) ''luna'') (''ab '' @ tab # ''cd'')
       = Some \<lparr>commits = 2, dee = 1, tick = 3\<rparr>
   \<and> GetTickCount (stores (fst (Restore example_formula example_deployer
          (example_world\<lparr>snapshot_files := \<lambda>path. Some (example_snapshot\<lparr>entries :=
              [(''xy '' @ tab # ''z'', \<lparr>commits = 1, dee = 1, tick = 7\<rparr>)]\<rparr>)\<rparr>)
          ''sync/peer/luna.db.snapshot'')) ''luna'') = 7"
  by (simp add: model_defs)

text \<open>
  C3, amended. After a restore that returns success, in which at least one entry was
  merged and the write of the clock metadata does not throw, the destination's clock
  is the larger of its clock before the merge and the snapshot's clock, and every record
  the merge wrote carries that clock as its stamp.
\<close>

theorem Restore_clock_and_stamps:
  assumes "Restore fd dp w snapshot_file = (w', True)"
    and "snapshot_files w snapshot_file = Some temp"
    and "0 < snd (merge fd (user_id dp) (update_ok w (GetDbName temp))
                    (meta_update_ok w (GetDbName temp)) (stores w (GetDbName temp)) temp)"
    and "meta_update_ok w (GetDbName temp) ''/tick''"
  shows "GetTickCount (stores w' (GetDbName temp)) =
           max (GetTickCount (stores w (GetDbName temp))) (GetTickCount temp)
         \<and> (\<forall>k right key. (k, right) \<in> set (scan temp) \<and> fix_key k = Some key
                \<and> update_ok w (GetDbName temp) key \<longrightarrow>
              (\<exists>val. Fetch (stores w' (GetDbName temp)) key = Some val
                 \<and> tick (Unpack val) = GetTickCount (stores w' (GetDbName temp))))"
proof -
  have "restore_target w snapshot_file \<noteq> None"
    using assms(1) snd_Restore [of fd dp w snapshot_file] by simp
  then have t: "restore_target w snapshot_file = Some temp"
    using assms(2) by (auto simp: restore_target_def split: if_splits)
  let ?n = "GetDbName temp"
  have w': "w' = w\<lparr>stores := (stores w)(?n := fst (merge fd (user_id dp) (update_ok w ?n)
                    (meta_update_ok w ?n) (stores w ?n) temp))\<rparr>"
    using assms(1) by (simp add: Restore_eq t)
  have c: "0 < merged_count (update_ok w ?n) (scan temp)"
    using assms(3) by (simp add: snd_merge)
  have clock: "GetTickCount (stores w' ?n) = max (GetTickCount (stores w ?n)) (GetTickCount temp)"
    using c assms(4) by (simp add: w' GetTickCount_def merge_fields)
  have "\<exists>val. Fetch (stores w' ?n) key = Some val \<and> tick (Unpack val) = GetTickCount (stores w' ?n)"
    if "(k, right) \<in> set (scan temp)" "fix_key k = Some key" "update_ok w ?n key" for k right key
    unfolding clock
    using merge_written_stamp [where ok = "update_ok w ?n", OF that]
    by (simp add: w' GetTickCount_def)
  then show ?thesis using clock by blast
qed

text \<open>The example restore meets the hypotheses; the clock becomes \<open>max 5 7\<close>.\<close>

theorem Restore_clock_and_stamps_witness:
  "Restore example_formula example_deployer example_world ''sync/peer/luna.db.snapshot''
     = (example_world\<lparr>stores := (stores example_world)(''luna'' :=
          \<lparr>db_name = ''luna'', is_user_db = True, owner_id = ''local'', tick_count = 7,
           entries = [(''ab '' @ tab # ''cd'', \<lparr>commits = 5, dee = 1 / 3, tick = 7\<rparr>)]\<rparr>)\<rparr>, True)
   \<and> GetTickCount (stores (example_world\<lparr>stores := (stores example_world)(''luna'' :=
          \<lparr>db_name = ''luna'', is_user_db = True, owner_id = ''local'', tick_count = 7,
           entries = [(''ab '' @ tab # ''cd'', \<lparr>commits = 5, dee = 1 / 3, tick = 7\<rparr>)]\<rparr>)\<rparr>) ''luna'')
       = max 5 7"
proof -
  have r: "Restore example_formula example_deployer example_world ''sync/peer/luna.db.snapshot''
     = (example_world\<lparr>stores := (stores example_world)(''luna'' :=
          \<lparr>db_name = ''luna'', is_user_db = True, owner_id = ''local'', tick_count = 7,
           entries = [(''ab '' @ tab # ''cd'', \<lparr>commits = 5, dee = 1 / 3, tick = 7\<rparr>)]\<rparr>)\<rparr>, True)"
    by (simp add: model_defs)
  have f: "snapshot_files example_world ''sync/peer/luna.db.snapshot'' = Some example_snapshot"
    by (simp add: example_world_def)
  have n: "0 < snd (merge example_formula (user_id example_deployer)
                    (update_ok example_world (GetDbName example_snapshot))
                    (meta_update_ok example_world (GetDbName example_snapshot))
                    (stores example_world (GetDbName example_snapshot)) example_snapshot)"
    by (simp add: model_defs)
  have m: "meta_update_ok example_world (GetDbName example_snapshot) ''/tick''"
    by (simp add: example_world_def)
  show ?thesis
    using Restore_clock_and_stamps [OF r f n m] r
    by (simp add: model_defs)
qed

subsection \<open>C6: when Restore fails\<close>

text \<open>
  C6. Restore returns failure exactly when the snapshot file cannot be imported into the
  temporary store (the temporary store cannot be opened, or the engine cannot restore the
  file into it), or the imported store is not a user dictionary, or its dictionary name
  is empty, or the destination of that name cannot be opened. In every other case it
  returns success, whatever happens to the writes of the merge; in particular when the
  merge counts zero entries.
\<close>

theorem Restore_fails_exactly:
  "(snd (Restore fd dp w snapshot_file) = False \<longleftrightarrow>
      (\<not> open_ok w ''.temp'' \<or> snapshot_files w snapshot_file = None)
      \<or> (\<exists>temp. snapshot_files w snapshot_file = Some temp \<and> \<not> IsUserDb temp)
      \<or> (\<exists>temp. snapshot_files w snapshot_file = Some temp \<and> GetDbName temp = [])
      \<or> (\<exists>temp. snapshot_files w snapshot_file = Some temp \<and> \<not> open_ok w (GetDbName temp)))
   \<and> (open_ok w ''.temp'' \<and> snapshot_files w snapshot_file = Some temp \<and> IsUserDb temp
        \<and> GetDbName temp \<noteq> [] \<and> open_ok w (GetDbName temp)
        \<and> snd (merge fd (user_id dp) (update_ok w (GetDbName temp))
                 (meta_update_ok w (GetDbName temp)) (stores w (GetDbName temp)) temp) = 0
      \<longrightarrow> snd (Restore fd dp w snapshot_file) = True)"
  by (auto simp: Restore_def Let_def case_prod_beta split: option.splits)

text \<open>
  The example: the snapshot of the peer restores, a file that does not exist does not,
  and a snapshot without records merges zero entries and still restores.
\<close>

theorem Restore_fails_exactly_witness:
  "snd (Restore example_formula example_deployer example_world ''sync/peer/luna.db.snapshot'') = True
   \<and> snd (Restore example_formula example_deployer example_world ''sync/peer/void.db.snapshot'') = False
   \<and> snd (merge example_formula ''local'' (\<lambda>key. True) (\<lambda>path. True) example_dest
             (example_snapshot\<lparr>entries := []\<rparr>)) = 0
   \<and> snd (Restore example_formula example_deployer
            (example_world\<lparr>snapshot_files := \<lambda>path. Some (example_snapshot\<lparr>entries := []\<rparr>)\<rparr>)
            ''sync/peer/luna.db.snapshot'') = True"
  using Restore_fails_exactly [where fd = example_formula and dp = example_deployer
      and w = example_world and snapshot_file = "''sync/peer/luna.db.snapshot''"
      and temp = example_snapshot]
    Restore_fails_exactly [where fd = example_formula and dp = example_deployer
      and w = example_world and snapshot_file = "''sync/peer/void.db.snapshot''"
      and temp = example_snapshot]
    Restore_fails_exactly [where fd = example_formula and dp = example_deployer
      and w = "example_world\<lparr>snapshot_files := \<lambda>path. Some (example_snapshot\<lparr>entries := []\<rparr>)\<rparr>"
      and snapshot_file = "''sync/peer/luna.db.snapshot''"
      and temp = "example_snapshot\<lparr>entries := []\<rparr>"]
  by (simp add: model_defs)

subsection \<open>C7: when the metadata follows\<close>

text \<open>
  C7, as stated, fails: when the engine throws on the metadata writes, a merge of one
  entry leaves the clock and the owner as they were.
\<close>

theorem merge_metadata_update_counterexample:
  "\<not> ((GetTickCount (fst (merge example_formula ''local'' (\<lambda>key. True) (\<lambda>path. False)
                             example_dest example_snapshot))
          = max (GetTickCount example_dest) (GetTickCount example_snapshot)
        \<and> GetUserId (fst (merge example_formula ''local'' (\<lambda>key. True) (\<lambda>path. False)
                             example_dest example_snapshot)) = ''local'')
       \<longleftrightarrow> 0 < snd (merge example_formula ''local'' (\<lambda>key. True) (\<lambda>path. False)
                       example_dest example_snapshot))"
  by (simp add: model_defs)

text \<open>
  C7, amended. A merge in which at least one entry was merged, and in which neither
  metadata write throws, sets the destination's clock to \<open>tick_max\<close> and its owner to
  the local identity; a merge of zero entries leaves both as they were.
\<close>

theorem merge_metadata_update:
  "(0 < snd (merge fd local_id ok mok dest temp) \<and> mok ''/tick'' \<and> mok ''/user_id'' \<longrightarrow>
      GetTickCount (fst (merge fd local_id ok mok dest temp)) =
        max (GetTickCount dest) (GetTickCount temp)
      \<and> GetUserId (fst (merge fd local_id ok mok dest temp)) = local_id)
   \<and> (snd (merge fd local_id ok mok dest temp) = 0 \<longrightarrow>
      GetTickCount (fst (merge fd local_id ok mok dest temp)) = GetTickCount dest
      \<and> GetUserId (fst (merge fd local_id ok mok dest temp)) = GetUserId dest)"
  by (simp add: snd_merge merge_fields GetTickCount_def GetUserId_def)

text \<open>
  The example merge counts one entry and moves clock and owner; a snapshot that holds
  only a metadata key counts none and leaves them.
\<close>

theorem merge_metadata_update_witness:
  "0 < snd (merge example_formula ''local'' (\<lambda>key. True) (\<lambda>path. True) example_dest example_snapshot)
   \<and> GetTickCount (fst (merge example_formula ''local'' (\<lambda>key. True) (\<lambda>path. True)
                            example_dest example_snapshot)) = 7
   \<and> GetUserId (fst (merge example_formula ''local'' (\<lambda>key. True) (\<lambda>path. True)
                         example_dest example_snapshot)) = ''local''
   \<and> snd (merge example_formula ''local'' (\<lambda>key. True) (\<lambda>path. True) example_dest
             (example_snapshot\<lparr>entries := [(''/tick'', \<lparr>commits = 0, dee = 0, tick = 7\<rparr>)]\<rparr>)) = 0
   \<and> GetTickCount (fst (merge example_formula ''local'' (\<lambda>key. True) (\<lambda>path. True) example_dest
             (example_snapshot\<lparr>entries := [(''/tick'', \<lparr>commits = 0, dee = 0, tick = 7\<rparr>)]\<rparr>))) = 5
   \<and> GetUserId (fst (merge example_formula ''local'' (\<lambda>key. True) (\<lambda>path. True) example_dest
             (example_snapshot\<lparr>entries := [(''/tick'', \<lparr>commits = 0, dee = 0, tick = 7\<rparr>)]\<rparr>))) = ''peer''"
  using merge_metadata_update [where fd = example_formula and local_id = "''local''"
      and ok = "\<lambda>key. True" and mok = "\<lambda>path. True" and dest = example_dest
      and temp = example_snapshot]
    merge_metadata_update [where fd = example_formula and local_id = "''local''"
      and ok = "\<lambda>key. True" and mok = "\<lambda>path. True" and dest = example_dest
      and temp = "example_snapshot\<lparr>entries := [(''/tick'', \<lparr>commits = 0, dee = 0, tick = 7\<rparr>)]\<rparr>"]
  by (simp add: model_defs)

subsection \<open>C10: a metadata write that throws\<close>

text \<open>
  C10. When the checks of Restore pass and the merge counts at least one entry, but the
  write of \<^verbatim>\<open>"/tick"\<close> or of \<^verbatim>\<open>"/user_id"\<close> throws, Restore still returns success and
  every record it wrote is stamped \<open>tick_max\<close>. When it is the write of \<^verbatim>\<open>"/tick"\<close>
  that throws, the stored clock stays what it was, which is strictly below that stamp
  whenever the snapshot's clock is ahead of the destination's.
\<close>

theorem Restore_swallows_metadata_failure:
  assumes "open_ok w ''.temp''" "snapshot_files w snapshot_file = Some temp" "IsUserDb temp"
    and "GetDbName temp \<noteq> []" "open_ok w (GetDbName temp)"
    and "0 < snd (merge fd (user_id dp) (update_ok w (GetDbName temp))
                    (meta_update_ok w (GetDbName temp)) (stores w (GetDbName temp)) temp)"
    and "\<not> meta_update_ok w (GetDbName temp) ''/tick''
         \<or> \<not> meta_update_ok w (GetDbName temp) ''/user_id''"
  shows "snd (Restore fd dp w snapshot_file) = True
     \<and> (\<forall>k right key. (k, right) \<in> set (scan temp) \<and> fix_key k = Some key
              \<and> update_ok w (GetDbName temp) key \<longrightarrow>
            (\<exists>val. Fetch (stores (fst (Restore fd dp w snapshot_file)) (GetDbName temp)) key
                      = Some val
               \<and> tick (Unpack val) =
                   max (GetTickCount (stores w (GetDbName temp))) (GetTickCount temp)))
     \<and> (\<not> meta_update_ok w (GetDbName temp) ''/tick'' \<longrightarrow>
          GetTickCount (stores (fst (Restore fd dp w snapshot_file)) (GetDbName temp)) =
          GetTickCount (stores w (GetDbName temp)))
     \<and> (\<not> meta_update_ok w (GetDbName temp) ''/tick''
          \<and> GetTickCount (stores w (GetDbName temp)) < GetTickCount temp \<longrightarrow>
          GetTickCount (stores (fst (Restore fd dp w snapshot_file)) (GetDbName temp)) <
          max (GetTickCount (stores w (GetDbName temp))) (GetTickCount temp))"
proof -
  let ?n = "GetDbName temp"
  have t: "restore_target w snapshot_file = Some temp"
    using assms(1-5) by (simp add: restore_target_def)
  have ok: "snd (Restore fd dp w snapshot_file) = True" by (simp add: snd_Restore t)
  have same: "GetTickCount (stores (fst (Restore fd dp w snapshot_file)) ?n) =
         GetTickCount (stores w ?n)" if "\<not> meta_update_ok w ?n ''/tick''"
    using that by (simp add: Restore_eq t GetTickCount_def merge_fields)
  have below: "GetTickCount (stores (fst (Restore fd dp w snapshot_file)) ?n) <
         max (GetTickCount (stores w ?n)) (GetTickCount temp)"
    if "\<not> meta_update_ok w ?n ''/tick''" "GetTickCount (stores w ?n) < GetTickCount temp"
    using same that by simp
  have stamp: "\<exists>val. Fetch (stores (fst (Restore fd dp w snapshot_file)) ?n) key = Some val
           \<and> tick (Unpack val) = max (GetTickCount (stores w ?n)) (GetTickCount temp)"
    if "(k, right) \<in> set (scan temp)" "fix_key k = Some key" "update_ok w ?n key"
    for k right key
    using merge_written_stamp [where ok = "update_ok w ?n", OF that]
    by (simp add: Restore_eq t GetTickCount_def)
  show ?thesis using ok same below stamp by blast
qed

text \<open>
  The example with an engine that throws on every metadata write: success, the record
  stamped 7, the clock still 5.
\<close>

theorem Restore_swallows_metadata_failure_witness:
  "snd (Restore example_formula example_deployer
          (example_world\<lparr>meta_update_ok := \<lambda>name path. False\<rparr>) ''sync/peer/luna.db.snapshot'') = True
   \<and> Fetch (stores (fst (Restore example_formula example_deployer
          (example_world\<lparr>meta_update_ok := \<lambda>name path. False\<rparr>) ''sync/peer/luna.db.snapshot''))
          ''luna'') (''ab '' @ tab # ''cd'') = Some \<lparr>commits = 5, dee = 1 / 3, tick = 7\<rparr>
   \<and> GetTickCount (stores (fst (Restore example_formula example_deployer
          (example_world\<lparr>meta_update_ok := \<lambda>name path. False\<rparr>) ''sync/peer/luna.db.snapshot''))
          ''luna'') = 5"
  using Restore_swallows_metadata_failure [where fd = example_formula and dp = example_deployer
      and w = "example_world\<lparr>meta_update_ok := \<lambda>name path. False\<rparr>"
      and snapshot_file = "''sync/peer/luna.db.snapshot''" and temp = example_snapshot]
  by (simp add: model_defs)

subsection \<open>C2: the order of two merges\<close>

lemma in_snapshot_incoming: "in_snapshot temp key \<longleftrightarrow> incoming fd t (scan temp) key \<noteq> []"
  by (simp add: in_snapshot_def incoming_def)

lemma tick_merge_le:
  "tick_count (fst (merge fd uid ok mok dest temp)) \<le> max (tick_count dest) (tick_count temp)"
  by (simp add: merge_fields)

lemma Fetch_merge_merge:
  fixes fd uid ok mok dest A B key
  defines "u \<equiv> Fetch dest key"
    and "va \<equiv> incoming fd (tick_count A) (scan A) key"
    and "vb \<equiv> incoming fd (tick_count B) (scan B) key"
    and "tla \<equiv> tick_count (fst (merge fd uid ok mok dest A))"
  shows "Fetch (fst (merge fd uid ok mok (fst (merge fd uid ok mok dest A)) B)) key =
     (if \<not> ok key then u
      else if vb = [] then merged_value fd (tick_count dest) (tick_count A)
                             (max (tick_count dest) (tick_count A)) u va
      else if va = [] then merged_value fd tla (tick_count B) (max tla (tick_count B)) u vb
      else Some (Pack \<lparr>commits = Max (set (map commits vb) \<union> (set (map commits va) \<union> held_commits u)),
                  dee = Max (set (map dee vb) \<union> (set (map dee va) \<union> held_dee fd (tick_count dest) u)),
                  tick = max tla (tick_count B)\<rparr>))"
proof (cases "ok key")
  case False
  then show ?thesis by (simp add: Fetch_merge u_def)
next
  case True
  have le: "tla \<le> max (tick_count dest) (tick_count A)"
    unfolding tla_def by (rule tick_merge_le)
  have outer: "Fetch (fst (merge fd uid ok mok (fst (merge fd uid ok mok dest A)) B)) key =
      merged_value fd tla (tick_count B) (max tla (tick_count B))
        (merged_value fd (tick_count dest) (tick_count A) (max (tick_count dest) (tick_count A)) u va) vb"
    using True by (simp add: Fetch_merge [of fd uid ok mok _ B] Fetch_merge [of fd uid ok mok dest A]
        tla_def u_def va_def vb_def)
  show ?thesis
  proof (cases "vb = []")
    case True
    then show ?thesis unfolding outer using \<open>ok key\<close> by (simp add: merged_value_def)
  next
    case vb: False
    show ?thesis
    proof (cases "va = []")
      case True
      then show ?thesis unfolding outer using \<open>ok key\<close> vb by (simp add: merged_value_def)
    next
      case False
      then show ?thesis
        unfolding outer using \<open>ok key\<close> vb merged_value_twice [OF le False vb]
        by simp
    qed
  qed
qed

lemma merge_order:
  fixes fd uid ok mok dest A B
  defines "dab \<equiv> fst (merge fd uid ok mok (fst (merge fd uid ok mok dest A)) B)"
    and "dba \<equiv> fst (merge fd uid ok mok (fst (merge fd uid ok mok dest B)) A)"
  shows "map_option (commits \<circ> Unpack) (Fetch dab key) = map_option (commits \<circ> Unpack) (Fetch dba key)"
    and "in_snapshot A key \<Longrightarrow> in_snapshot B key \<Longrightarrow>
         map_option (dee \<circ> Unpack) (Fetch dab key) = map_option (dee \<circ> Unpack) (Fetch dba key)"
    and "in_snapshot A key \<Longrightarrow> in_snapshot B key \<Longrightarrow> mok ''/tick'' \<Longrightarrow>
         Fetch dab key = Fetch dba key"
    and "tick_count A \<le> tick_count dest \<Longrightarrow> tick_count B \<le> tick_count dest \<Longrightarrow>
         Fetch dab key = Fetch dba key"
proof -
  let ?u = "Fetch dest key"
  let ?va = "incoming fd (tick_count A) (scan A) key"
  let ?vb = "incoming fd (tick_count B) (scan B) key"
  let ?tla = "tick_count (fst (merge fd uid ok mok dest A))"
  let ?tlb = "tick_count (fst (merge fd uid ok mok dest B))"
  note ab = Fetch_merge_merge [of fd uid ok mok dest A B key]
  note ba = Fetch_merge_merge [of fd uid ok mok dest B A key]
  have cu: "set (map commits ?vb) \<union> (set (map commits ?va) \<union> held_commits ?u) =
            set (map commits ?va) \<union> (set (map commits ?vb) \<union> held_commits ?u)"
    by (rule Un_left_commute)
  have du: "set (map dee ?vb) \<union> (set (map dee ?va) \<union> held_dee fd (tick_count dest) ?u) =
            set (map dee ?va) \<union> (set (map dee ?vb) \<union> held_dee fd (tick_count dest) ?u)"
    by (rule Un_left_commute)
  show "map_option (commits \<circ> Unpack) (Fetch dab key) = map_option (commits \<circ> Unpack) (Fetch dba key)"
    unfolding dab_def dba_def ab ba cu
    by (simp add: merged_value_def Pack_def Unpack_def)
  show "map_option (dee \<circ> Unpack) (Fetch dab key) = map_option (dee \<circ> Unpack) (Fetch dba key)"
    if "in_snapshot A key" "in_snapshot B key"
  proof -
    have "?va \<noteq> []" "?vb \<noteq> []"
      using that by (simp_all add: in_snapshot_incoming [symmetric])
    then show ?thesis
      unfolding dab_def dba_def ab ba du
      by (simp add: Pack_def Unpack_def)
  qed
  show "Fetch dab key = Fetch dba key"
    if "in_snapshot A key" "in_snapshot B key" "mok ''/tick''"
  proof (cases "ok key")
    case False
    then show ?thesis unfolding dab_def dba_def ab ba by simp
  next
    case True
    have ne: "?va \<noteq> []" "?vb \<noteq> []"
      using that by (simp_all add: in_snapshot_incoming [symmetric])
    have "0 < merged_count ok (scan A)" "0 < merged_count ok (scan B)"
      using True ne by (auto intro: merged_count_incoming)
    then have "?tla = max (tick_count dest) (tick_count A)"
      "?tlb = max (tick_count dest) (tick_count B)"
      using that(3) by (simp_all add: merge_fields)
    then have "max ?tla (tick_count B) = max ?tlb (tick_count A)" by simp
    then show ?thesis
      unfolding dab_def dba_def ab ba cu du
      using ne by simp
  qed
  show "Fetch dab key = Fetch dba key"
    if "tick_count A \<le> tick_count dest" "tick_count B \<le> tick_count dest"
  proof -
    have t: "?tla = tick_count dest" "?tlb = tick_count dest"
      using that by (simp_all add: merge_fields max_absorb1)
    have m: "max (tick_count dest) (tick_count A) = tick_count dest"
      "max (tick_count dest) (tick_count B) = tick_count dest"
      using that by simp_all
    show ?thesis
      unfolding dab_def dba_def ab ba cu du t m
      by (simp add: merged_value_def)
  qed
qed

lemma stores_Restore:
  "stores (fst (Restore fd dp w f)) name =
     restored fd dp w (restore_target w f) name (stores w name)"
  by (simp add: Restore_eq restored_def split: option.splits)

lemma stores_Restore_Restore:
  "stores (fst (Restore fd dp (fst (Restore fd dp w f)) g)) name =
     restored fd dp w (restore_target w g) name
       (restored fd dp w (restore_target w f) name (stores w name))"
  by (simp add: stores_Restore [of fd dp "fst (Restore fd dp w f)"] restore_target_Restore
      restored_def Restore_frame stores_Restore [of fd dp w] split: option.splits)

lemma restore_target_Some: "restore_target w f = Some temp \<Longrightarrow> snapshot_files w f = Some temp"
  by (auto simp: restore_target_def split: if_splits option.splits)

text \<open>
  C2, as stated, fails on the stamp (and, with it, on the weight) of a key that only one
  of the snapshots holds: the entry of the example snapshot (clock 7), merged before the
  later snapshot (clock 9), is stamped 7 and has its old weight rescaled to clock 5;
  merged after it, it is stamped 9 and has the old weight rescaled to clock 9.
\<close>

theorem Restore_order_counterexample:
  "Fetch (stores (fst (Restore example_formula example_deployer
            (fst (Restore example_formula example_deployer example_world
                    ''sync/peer/luna.db.snapshot''))
            ''sync/other/luna.db.snapshot'')) ''luna'') (''ab '' @ tab # ''cd'')
     = Some \<lparr>commits = 5, dee = 1 / 3, tick = 7\<rparr>
   \<and> Fetch (stores (fst (Restore example_formula example_deployer
            (fst (Restore example_formula example_deployer example_world
                    ''sync/other/luna.db.snapshot''))
            ''sync/peer/luna.db.snapshot'')) ''luna'') (''ab '' @ tab # ''cd'')
     = Some \<lparr>commits = 5, dee = 1 / 5, tick = 9\<rparr>"
  by (simp add: model_defs)

text \<open>
  C2, amended. For every starting state and every two snapshot files, restoring the
  first then the second leaves under every key of every dictionary the same commit
  count as restoring the second then the first. For a key that both snapshots hold, the
  weight is the same too, and so is the whole record (stamp included) when the clock
  metadata of the dictionary can be written. When neither snapshot's clock is ahead of
  the dictionary's clock, the whole record is the same under every key.
\<close>

theorem Restore_order:
  fixes fd dp w fileA fileB
  defines "wab \<equiv> fst (Restore fd dp (fst (Restore fd dp w fileA)) fileB)"
    and "wba \<equiv> fst (Restore fd dp (fst (Restore fd dp w fileB)) fileA)"
  shows "(\<forall>name key. map_option (commits \<circ> Unpack) (Fetch (stores wab name) key)
                     = map_option (commits \<circ> Unpack) (Fetch (stores wba name) key))
     \<and> (\<forall>A B name key.
          snapshot_files w fileA = Some A \<and> snapshot_files w fileB = Some B
          \<and> in_snapshot A key \<and> in_snapshot B key \<longrightarrow>
          map_option (dee \<circ> Unpack) (Fetch (stores wab name) key)
            = map_option (dee \<circ> Unpack) (Fetch (stores wba name) key))
     \<and> (\<forall>A B name key.
          snapshot_files w fileA = Some A \<and> snapshot_files w fileB = Some B
          \<and> in_snapshot A key \<and> in_snapshot B key \<and> meta_update_ok w name ''/tick'' \<longrightarrow>
          Fetch (stores wab name) key = Fetch (stores wba name) key)
     \<and> (\<forall>A B name key.
          snapshot_files w fileA = Some A \<and> snapshot_files w fileB = Some B
          \<and> GetTickCount A \<le> GetTickCount (stores w name)
          \<and> GetTickCount B \<le> GetTickCount (stores w name) \<longrightarrow>
          Fetch (stores wab name) key = Fetch (stores wba name) key)"
proof -
  let ?ta = "restore_target w fileA" and ?tb = "restore_target w fileB"
  have ab: "stores wab name = restored fd dp w ?tb name (restored fd dp w ?ta name (stores w name))"
    for name unfolding wab_def by (rule stores_Restore_Restore)
  have ba: "stores wba name = restored fd dp w ?ta name (restored fd dp w ?tb name (stores w name))"
    for name unfolding wba_def by (rule stores_Restore_Restore)
  have one: "stores wab name = stores wba name"
    if "?ta = None \<or> ?tb = None \<or> name \<noteq> GetDbName (the ?ta) \<or> name \<noteq> GetDbName (the ?tb)"
    for name
    using that unfolding ab ba by (auto simp: restored_def split: option.splits)
  have both: "stores wab name = fst (merge fd (user_id dp) (update_ok w name) (meta_update_ok w name)
          (fst (merge fd (user_id dp) (update_ok w name) (meta_update_ok w name) (stores w name) A)) B)
      \<and> stores wba name = fst (merge fd (user_id dp) (update_ok w name) (meta_update_ok w name)
          (fst (merge fd (user_id dp) (update_ok w name) (meta_update_ok w name) (stores w name) B)) A)"
    if "?ta = Some A" "?tb = Some B" "name = GetDbName A" "name = GetDbName B"
    for name A B
    using that unfolding ab ba by (simp add: restored_def)
  have split: "stores wab name = stores wba name \<or>
      (snapshot_files w fileA = Some A \<longrightarrow> snapshot_files w fileB = Some B \<longrightarrow>
         ?ta = Some A \<and> ?tb = Some B \<and> name = GetDbName A \<and> name = GetDbName B)"
    for name A B
  proof (cases "?ta = None \<or> ?tb = None \<or> name \<noteq> GetDbName (the ?ta) \<or> name \<noteq> GetDbName (the ?tb)")
    case True
    then show ?thesis using one by blast
  next
    case False
    then obtain A' B' where t: "?ta = Some A'" "?tb = Some B'"
      and n: "name = GetDbName A'" "name = GetDbName B'" by auto
    have "snapshot_files w fileA = Some A'" "snapshot_files w fileB = Some B'"
      using t by (simp_all add: restore_target_Some)
    then show ?thesis using t n by auto
  qed
  have c1: "map_option (commits \<circ> Unpack) (Fetch (stores wab name) key)
          = map_option (commits \<circ> Unpack) (Fetch (stores wba name) key)" for name key
  proof (cases "?ta = None \<or> ?tb = None \<or> name \<noteq> GetDbName (the ?ta) \<or> name \<noteq> GetDbName (the ?tb)")
    case True
    then show ?thesis using one by simp
  next
    case False
    then obtain A' B' where t: "?ta = Some A'" "?tb = Some B'"
      and n: "name = GetDbName A'" "name = GetDbName B'" by auto
    show ?thesis using both [OF t n] merge_order(1) by simp
  qed
  have c2: "map_option (dee \<circ> Unpack) (Fetch (stores wab name) key)
            = map_option (dee \<circ> Unpack) (Fetch (stores wba name) key)"
    if "snapshot_files w fileA = Some A" "snapshot_files w fileB = Some B"
      "in_snapshot A key" "in_snapshot B key" for A B name key
    using split [of name A B] that both [of A B name] merge_order(2) [of A key B]
    by auto
  have c3: "Fetch (stores wab name) key = Fetch (stores wba name) key"
    if "snapshot_files w fileA = Some A" "snapshot_files w fileB = Some B"
      "in_snapshot A key" "in_snapshot B key" "meta_update_ok w name ''/tick''" for A B name key
    using split [of name A B] that both [of A B name]
      merge_order(3) [of A key B "meta_update_ok w name"]
    by auto
  have c4: "Fetch (stores wab name) key = Fetch (stores wba name) key"
    if "snapshot_files w fileA = Some A" "snapshot_files w fileB = Some B"
      "GetTickCount A \<le> GetTickCount (stores w name)"
      "GetTickCount B \<le> GetTickCount (stores w name)" for A B name key
    using split [of name A B] that both [of A B name]
      merge_order(4) [of A "stores w name" B]
    by (auto simp: GetTickCount_def)
  show ?thesis using c1 c2 c3 c4 by blast
qed

text \<open>
  The example: the first and the earlier snapshot both hold the entry, and either order
  leaves it with commits 9, weight 1/2 and stamp 7; from a dictionary at clock 9 the
  first and the later snapshot, in either order, leave it with commits 5, weight 1/5
  and stamp 9.
\<close>

theorem Restore_order_witness:
  "snapshot_files example_world ''sync/peer/luna.db.snapshot'' = Some example_snapshot
   \<and> snapshot_files example_world ''sync/third/luna.db.snapshot'' = Some example_earlier_snapshot
   \<and> in_snapshot example_snapshot (''ab '' @ tab # ''cd'')
   \<and> in_snapshot example_earlier_snapshot (''ab '' @ tab # ''cd'')
   \<and> meta_update_ok example_world ''luna'' ''/tick''
   \<and> Fetch (stores (fst (Restore example_formula example_deployer
            (fst (Restore example_formula example_deployer example_world
                    ''sync/peer/luna.db.snapshot''))
            ''sync/third/luna.db.snapshot'')) ''luna'') (''ab '' @ tab # ''cd'')
     = Some \<lparr>commits = 9, dee = 1 / 2, tick = 7\<rparr>
   \<and> Fetch (stores (fst (Restore example_formula example_deployer
            (fst (Restore example_formula example_deployer example_world
                    ''sync/third/luna.db.snapshot''))
            ''sync/peer/luna.db.snapshot'')) ''luna'') (''ab '' @ tab # ''cd'')
     = Some \<lparr>commits = 9, dee = 1 / 2, tick = 7\<rparr>
   \<and> GetTickCount example_snapshot
       \<le> GetTickCount (stores (example_world\<lparr>stores := \<lambda>name. example_dest\<lparr>tick_count := 9\<rparr>\<rparr>) ''luna'')
   \<and> GetTickCount example_later_snapshot
       \<le> GetTickCount (stores (example_world\<lparr>stores := \<lambda>name. example_dest\<lparr>tick_count := 9\<rparr>\<rparr>) ''luna'')
   \<and> Fetch (stores (fst (Restore example_formula example_deployer
            (fst (Restore example_formula example_deployer
                    (example_world\<lparr>stores := \<lambda>name. example_dest\<lparr>tick_count := 9\<rparr>\<rparr>)
                    ''sync/peer/luna.db.snapshot''))
            ''sync/other/luna.db.snapshot'')) ''luna'') (''ab '' @ tab # ''cd'')
     = Some \<lparr>commits = 5, dee = 1 / 5, tick = 9\<rparr>
   \<and> Fetch (stores (fst (Restore example_formula example_deployer
            (fst (Restore example_formula example_deployer
                    (example_world\<lparr>stores := \<lambda>name. example_dest\<lparr>tick_count := 9\<rparr>\<rparr>)
                    ''sync/other/luna.db.snapshot''))
            ''sync/peer/luna.db.snapshot'')) ''luna'') (''ab '' @ tab # ''cd'')
     = Some \<lparr>commits = 5, dee = 1 / 5, tick = 9\<rparr>"
proof -
  let ?w9 = "example_world\<lparr>stores := \<lambda>name. example_dest\<lparr>tick_count := 9\<rparr>\<rparr>"
  have a9: "snapshot_files ?w9 ''sync/peer/luna.db.snapshot'' = Some example_snapshot"
    and b9: "snapshot_files ?w9 ''sync/other/luna.db.snapshot'' = Some example_later_snapshot"
    by (simp_all add: example_world_def)
  have ta: "GetTickCount example_snapshot \<le> GetTickCount (stores ?w9 ''luna'')"
    and tb: "GetTickCount example_later_snapshot \<le> GetTickCount (stores ?w9 ''luna'')"
    by (simp_all add: model_defs)
  have ab9: "Fetch (stores (fst (Restore example_formula example_deployer
            (fst (Restore example_formula example_deployer ?w9 ''sync/peer/luna.db.snapshot''))
            ''sync/other/luna.db.snapshot'')) ''luna'') (''ab '' @ tab # ''cd'')
     = Some \<lparr>commits = 5, dee = 1 / 5, tick = 9\<rparr>"
    by (simp add: model_defs)
  have eq9: "Fetch (stores (fst (Restore example_formula example_deployer
            (fst (Restore example_formula example_deployer ?w9 ''sync/peer/luna.db.snapshot''))
            ''sync/other/luna.db.snapshot'')) ''luna'') (''ab '' @ tab # ''cd'')
     = Fetch (stores (fst (Restore example_formula example_deployer
            (fst (Restore example_formula example_deployer ?w9 ''sync/other/luna.db.snapshot''))
            ''sync/peer/luna.db.snapshot'')) ''luna'') (''ab '' @ tab # ''cd'')"
    using Restore_order [where fd = example_formula and dp = example_deployer
        and w = ?w9 and fileA = "''sync/peer/luna.db.snapshot''"
        and fileB = "''sync/other/luna.db.snapshot''"] a9 b9 ta tb
    by blast
  have a: "snapshot_files example_world ''sync/peer/luna.db.snapshot'' = Some example_snapshot"
    and b: "snapshot_files example_world ''sync/third/luna.db.snapshot'' = Some example_earlier_snapshot"
    and m: "meta_update_ok example_world ''luna'' ''/tick''"
    by (simp_all add: example_world_def)
  have ia: "in_snapshot example_snapshot (''ab '' @ tab # ''cd'')"
    and ib: "in_snapshot example_earlier_snapshot (''ab '' @ tab # ''cd'')"
    by (simp_all add: model_defs in_snapshot_def landing_def)
  have ab: "Fetch (stores (fst (Restore example_formula example_deployer
            (fst (Restore example_formula example_deployer example_world
                    ''sync/peer/luna.db.snapshot''))
            ''sync/third/luna.db.snapshot'')) ''luna'') (''ab '' @ tab # ''cd'')
     = Some \<lparr>commits = 9, dee = 1 / 2, tick = 7\<rparr>"
    by (simp add: model_defs)
  have "Fetch (stores (fst (Restore example_formula example_deployer
            (fst (Restore example_formula example_deployer example_world
                    ''sync/peer/luna.db.snapshot''))
            ''sync/third/luna.db.snapshot'')) ''luna'') (''ab '' @ tab # ''cd'')
     = Fetch (stores (fst (Restore example_formula example_deployer
            (fst (Restore example_formula example_deployer example_world
                    ''sync/third/luna.db.snapshot''))
            ''sync/peer/luna.db.snapshot'')) ''luna'') (''ab '' @ tab # ''cd'')"
    using Restore_order [where fd = example_formula and dp = example_deployer
        and w = example_world and fileA = "''sync/peer/luna.db.snapshot''"
        and fileB = "''sync/third/luna.db.snapshot''"] a b ia ib m
    by blast
  with ab a b ia ib m ta tb ab9 eq9 show ?thesis by simp
qed

subsection \<open>C4: the commit count an imported line leaves\<close>

lemma import_loop_Cons:
  "import_loop lc ok (line # lines) db n =
     (case import_entry lc line of
        None \<Rightarrow> import_loop lc ok lines db n
      | Some (key, count) \<Rightarrow>
          import_loop lc ok lines
            (fst (Update ok db key (Pack (import_value (Fetch db key) count))))
            (if ok key then n + 1 else n))"
  by (simp add: Update_def split: option.splits)

lemma import_value_commits:
  "commits (import_value (Some val) count) =
     (if 0 < count then max count (commits (Unpack val))
      else if count < 0 then count else commits (Unpack val))"
  by (simp add: import_value_def Let_def)

lemma import_loop_other:
  assumes "\<forall>l \<in> set lines. \<forall>c. import_entry lc l \<noteq> Some (key, c)"
  shows "Fetch (fst (import_loop lc ok lines db n)) key = Fetch db key"
  using assms
proof (induction lines arbitrary: db n)
  case Nil
  then show ?case by simp
next
  case (Cons line lines)
  show ?case
  proof (cases "import_entry lc line")
    case None
    then show ?thesis using Cons by (simp add: import_loop_Cons del: import_loop.simps)
  next
    case (Some e)
    obtain k c where e: "e = (k, c)" by (cases e)
    have "k \<noteq> key" using Cons.prems Some e by auto
    then show ?thesis
      using Cons Some e by (simp add: import_loop_Cons Fetch_Update del: import_loop.simps)
  qed
qed

text \<open>
  C4, as stated, fails for a usage count of zero: the line "cd<TAB>ab<TAB>0" is read as
  the key "ab <TAB>cd" with count 0, the dictionary holds that key with commit count 2,
  and after the import (one entry written) it still holds commit count 2, not 0.
\<close>

theorem import_line_commits_counterexample:
  "import_entry example_lexical_cast (''cd'' @ tab # ''ab'' @ tab # ''0'')
     = Some (''ab '' @ tab # ''cd'', 0)
   \<and> Fetch (stores example_world ''luna'') (''ab '' @ tab # ''cd'')
     = Some \<lparr>commits = 2, dee = 1, tick = 3\<rparr>
   \<and> snd (Import example_lexical_cast
            (example_world\<lparr>text_files := \<lambda>path. [''cd'' @ tab # ''ab'' @ tab # ''0'']\<rparr>)
            ''luna'' ''luna.txt'') = 1
   \<and> Fetch (stores (fst (Import example_lexical_cast
            (example_world\<lparr>text_files := \<lambda>path. [''cd'' @ tab # ''ab'' @ tab # ''0'']\<rparr>)
            ''luna'' ''luna.txt'')) ''luna'') (''ab '' @ tab # ''cd'')
     = Some \<lparr>commits = 2, dee = 1, tick = 3\<rparr>"
  by (simp add: model_defs import_defs)

text \<open>
  C4, amended. For every line processed by Import whose key already exists in the
  destination with stored commit count \<open>k\<close> when the line is read, and whose write the
  engine accepts: right after the line the stored commit count is the line's count \<open>c\<close>
  when \<open>c < 0\<close>, is \<open>max c k\<close> when \<open>c > 0\<close>, and is still \<open>k\<close> when \<open>c = 0\<close>;
  no other key changes; and when no later line has the same key, this is the stored
  commit count after the import.
\<close>

theorem import_line_commits:
  assumes "import_entry lexical_cast_int line = Some (key, count)"
    and "Fetch db key = Some val"
    and "ok key"
  shows "(\<exists>db' val'.
            import_loop lexical_cast_int ok (line # lines) db n =
              import_loop lexical_cast_int ok lines db' (n + 1)
            \<and> Fetch db' key = Some val'
            \<and> commits (Unpack val') =
                (if 0 < count then max count (commits (Unpack val))
                 else if count < 0 then count else commits (Unpack val))
            \<and> (\<forall>other. other \<noteq> key \<longrightarrow> Fetch db' other = Fetch db other))
       \<and> ((\<forall>l \<in> set lines. \<forall>c. import_entry lexical_cast_int l \<noteq> Some (key, c)) \<longrightarrow>
            (\<exists>val'. Fetch (fst (import_loop lexical_cast_int ok (line # lines) db n)) key = Some val'
               \<and> commits (Unpack val') =
                   (if 0 < count then max count (commits (Unpack val))
                    else if count < 0 then count else commits (Unpack val))))"
proof -
  let ?v = "import_value (Fetch db key) count"
  let ?db = "fst (Update ok db key (Pack ?v))"
  have step: "import_loop lexical_cast_int ok (line # lines) db n =
              import_loop lexical_cast_int ok lines ?db (n + 1)"
    using assms(1,3) by (simp add: import_loop_Cons del: import_loop.simps)
  have f: "Fetch ?db key = Some (Pack ?v)"
    using assms(3) by (simp add: Fetch_Update)
  have c: "commits (Unpack (Pack ?v)) =
                (if 0 < count then max count (commits (Unpack val))
                 else if count < 0 then count else commits (Unpack val))"
    using assms(2) by (simp add: import_value_commits Pack_def Unpack_def)
  have o: "\<forall>other. other \<noteq> key \<longrightarrow> Fetch ?db other = Fetch db other"
    by (simp add: Fetch_Update)
  have last: "Fetch (fst (import_loop lexical_cast_int ok (line # lines) db n)) key = Some (Pack ?v)"
    if "\<forall>l \<in> set lines. \<forall>c. import_entry lexical_cast_int l \<noteq> Some (key, c)"
    unfolding step using import_loop_other [OF that] f by simp
  show ?thesis using step f c o last by blast
qed

text \<open>
  The example: importing count -1 for the key held with commit count 2 leaves -1, and
  importing count 7 leaves 7.
\<close>

theorem import_line_commits_witness:
  "import_entry example_lexical_cast (''cd'' @ tab # ''ab'' @ tab # ''-1'')
     = Some (''ab '' @ tab # ''cd'', - 1)
   \<and> Fetch example_dest (''ab '' @ tab # ''cd'') = Some \<lparr>commits = 2, dee = 1, tick = 3\<rparr>
   \<and> (\<exists>val'. Fetch (fst (import_loop example_lexical_cast (\<lambda>key. True)
                   [''cd'' @ tab # ''ab'' @ tab # ''-1''] example_dest 0)) (''ab '' @ tab # ''cd'')
                = Some val' \<and> commits (Unpack val') = - 1)
   \<and> import_entry example_lexical_cast (''cd'' @ tab # ''ab'' @ tab # ''7'')
     = Some (''ab '' @ tab # ''cd'', 7)
   \<and> (\<exists>val'. Fetch (fst (import_loop example_lexical_cast (\<lambda>key. True)
                   [''cd'' @ tab # ''ab'' @ tab # ''7''] example_dest 0)) (''ab '' @ tab # ''cd'')
                = Some val' \<and> commits (Unpack val') = 7)"
proof -
  have e1: "import_entry example_lexical_cast (''cd'' @ tab # ''ab'' @ tab # ''-1'')
     = Some (''ab '' @ tab # ''cd'', - 1)"
    and e7: "import_entry example_lexical_cast (''cd'' @ tab # ''ab'' @ tab # ''7'')
     = Some (''ab '' @ tab # ''cd'', 7)"
    by (simp_all add: model_defs import_defs)
  have f: "Fetch example_dest (''ab '' @ tab # ''cd'') = Some \<lparr>commits = 2, dee = 1, tick = 3\<rparr>"
    by (simp add: model_defs)
  have t: "True" by simp
  show ?thesis
    using import_line_commits [OF e1 f t, where lines = "[]" and n = 0]
      import_line_commits [OF e7 f t, where lines = "[]" and n = 0] e1 e7 f
    by (simp add: Unpack_def)
qed

subsection \<open>C8: Synchronize merges every peer snapshot, then backs up\<close>

lemma peer_snapshots_Restore:
  "peer_snapshots (fst (Restore fd dp w f)) dir sf names = peer_snapshots w dir sf names"
  by (simp add: peer_snapshots_def Restore_frame)

lemma sync_loop_restore_all:
  "sync_loop fd dp dir sf names w success =
     (fst (restore_all fd dp (peer_snapshots w dir sf names) w),
      success \<and> list_all (\<lambda>merged. merged) (snd (restore_all fd dp (peer_snapshots w dir sf names) w)))"
proof (induction names arbitrary: w success)
  case Nil
  then show ?case by (simp add: peer_snapshots_def)
next
  case (Cons name names)
  let ?file = "path_append (path_append dir name) sf"
  show ?case
  proof (cases "fs_is_directory w (path_append dir name) \<and> fs_exists w ?file")
    case False
    then have "peer_snapshots w dir sf (name # names) = peer_snapshots w dir sf names"
      by (auto simp: peer_snapshots_def)
    moreover have "sync_loop fd dp dir sf (name # names) w success = sync_loop fd dp dir sf names w success"
      using False by (auto simp: Let_def)
    ultimately show ?thesis by (simp add: Cons.IH)
  next
    case True
    let ?w1 = "fst (Restore fd dp w ?file)"
    have p: "peer_snapshots w dir sf (name # names) = ?file # peer_snapshots w dir sf names"
      using True by (simp add: peer_snapshots_def)
    have s: "sync_loop fd dp dir sf (name # names) w success =
             sync_loop fd dp dir sf names ?w1 (if \<not> snd (Restore fd dp w ?file) then False else success)"
      using True by (simp add: Let_def case_prod_beta)
    have q: "peer_snapshots ?w1 dir sf names = peer_snapshots w dir sf names"
      by (rule peer_snapshots_Restore)
    show ?thesis
      unfolding s p Cons.IH q
      by (auto simp: case_prod_beta)
  qed
qed

lemma Synchronize_past_the_guard:
  assumes "fs_is_directory w1 (sync_dir dp)"
  shows "(case sync_loop fd dp (sync_dir dp) (dict_name @ extension @ ''.snapshot'')
                 (fs_entries w1 (sync_dir dp)) w1 True of
            (w2, success) \<Rightarrow>
              (case Backup dp extension w2 dict_name of
                 (w3, Inl raised) \<Rightarrow> (w3, Inl raised)
               | (w3, Inr backed_up) \<Rightarrow>
                   (w3, Inr (if \<not> backed_up then False else success))))
         = Synchronize_spec fd dp extension w1 dict_name"
  by (auto simp: Synchronize_spec_def sync_loop_restore_all case_prod_beta
      split: prod.splits sum.splits)

text \<open>
  C8, as stated, fails when the shared root neither exists nor can be created:
  Synchronize then returns failure at once and leaves the world as it was, so the
  final Backup is not performed (a Backup in that world would have claimed the
  dictionary for the local identity before failing).
\<close>

theorem Synchronize_counterexample:
  "Synchronize example_formula example_deployer ''.db''
     (example_world\<lparr>fs_exists := \<lambda>path. path = ''rime'',
                     create_directories_answer := \<lambda>path. Mkdir_failed\<rparr>)
     ''luna''
   = (example_world\<lparr>fs_exists := \<lambda>path. path = ''rime'',
                     create_directories_answer := \<lambda>path. Mkdir_failed\<rparr>,
      Inr False)
   \<and> GetUserId (stores (example_world\<lparr>fs_exists := \<lambda>path. path = ''rime'',
                         create_directories_answer := \<lambda>path. Mkdir_failed\<rparr>) ''luna'') = ''peer''
   \<and> GetUserId (stores (fst (Backup example_deployer ''.db''
        (example_world\<lparr>fs_exists := \<lambda>path. path = ''rime'',
                        create_directories_answer := \<lambda>path. Mkdir_failed\<rparr>)
        ''luna'')) ''luna'') = ''local''"
  by (simp add: model_defs sync_defs)

text \<open>
  C8, amended. When the shared root exists as a directory, or is missing and can be
  created, Synchronize merges the dictionary's snapshot from every peer subdirectory
  that has one, going on after a merge that fails, then performs the final Backup
  whatever the merges returned, and, when that Backup returns, returns success if and
  only if every one of these merges and the backup succeeded (an error the Backup raises
  is raised by Synchronize). When the shared root is missing and cannot be created,
  Synchronize returns failure without attempting a merge or the backup.
\<close>

theorem Synchronize_merges_all_then_backs_up:
  "(fs_exists w (sync_dir dp) \<and> fs_is_directory w (sync_dir dp) \<longrightarrow>
      Synchronize fd dp extension w dict_name = Synchronize_spec fd dp extension w dict_name)
   \<and> (\<not> fs_exists w (sync_dir dp) \<and> create_directories_answer w (sync_dir dp) = Created \<longrightarrow>
      Synchronize fd dp extension w dict_name =
        Synchronize_spec fd dp extension (create_directories w (sync_dir dp)) dict_name)
   \<and> (\<not> fs_exists w (sync_dir dp) \<and> create_directories_answer w (sync_dir dp) \<noteq> Created \<longrightarrow>
      Synchronize fd dp extension w dict_name = (w, Inr False))"
proof (intro conjI impI)
  assume a: "fs_exists w (sync_dir dp) \<and> fs_is_directory w (sync_dir dp)"
  then have "fs_is_directory w (sync_dir dp)" by simp
  from Synchronize_past_the_guard [OF this, where fd = fd and dict_name = dict_name
      and extension = extension] a
  show "Synchronize fd dp extension w dict_name = Synchronize_spec fd dp extension w dict_name"
    by (simp add: Synchronize_def Let_def)
next
  assume a: "\<not> fs_exists w (sync_dir dp) \<and> create_directories_answer w (sync_dir dp) = Created"
  have "fs_is_directory (create_directories w (sync_dir dp)) (sync_dir dp)"
    by (simp add: create_directories_def)
  from Synchronize_past_the_guard [OF this, where fd = fd and dict_name = dict_name
      and extension = extension] a this
  show "Synchronize fd dp extension w dict_name =
        Synchronize_spec fd dp extension (create_directories w (sync_dir dp)) dict_name"
    by (simp add: Synchronize_def Let_def)
next
  assume "\<not> fs_exists w (sync_dir dp) \<and> create_directories_answer w (sync_dir dp) \<noteq> Created"
  then show "Synchronize fd dp extension w dict_name = (w, Inr False)"
    by (simp add: Synchronize_def)
qed

text \<open>
  The example with the snapshot of the first peer unreadable: the result is failure,
  and the snapshots of the two other peers are merged and backed up all the same. With
  the shared root missing and creatable, the new root holds no peer, nothing is merged
  and the dictionary is backed up as it was. With the root missing and not creatable
  the synchronization fails.
\<close>

theorem Synchronize_merges_all_then_backs_up_witness:
  "fs_exists (example_world\<lparr>snapshot_files :=
        (snapshot_files example_world)(''sync/other/luna.db.snapshot'' := None)\<rparr>)
     (sync_dir example_deployer)
   \<and> fs_is_directory (example_world\<lparr>snapshot_files :=
        (snapshot_files example_world)(''sync/other/luna.db.snapshot'' := None)\<rparr>)
     (sync_dir example_deployer)
   \<and> snd (Synchronize example_formula example_deployer ''.db''
        (example_world\<lparr>snapshot_files :=
           (snapshot_files example_world)(''sync/other/luna.db.snapshot'' := None)\<rparr>) ''luna'')
     = Inr False
   \<and> snapshot_files (fst (Synchronize example_formula example_deployer ''.db''
        (example_world\<lparr>snapshot_files :=
           (snapshot_files example_world)(''sync/other/luna.db.snapshot'' := None)\<rparr>) ''luna''))
        ''sync/local/luna.db.snapshot''
     = Some \<lparr>db_name = ''luna'', is_user_db = True, owner_id = ''local'', tick_count = 7,
             entries = [(''ab '' @ tab # ''cd'', \<lparr>commits = 9, dee = 1 / 2, tick = 7\<rparr>)]\<rparr>
   \<and> \<not> fs_exists (example_world\<lparr>fs_exists := (fs_exists example_world)(''sync'' := False)\<rparr>)
         (sync_dir example_deployer)
   \<and> create_directories_answer
         (example_world\<lparr>fs_exists := (fs_exists example_world)(''sync'' := False)\<rparr>)
         (sync_dir example_deployer) = Created
   \<and> snd (Synchronize example_formula example_deployer ''.db''
        (example_world\<lparr>fs_exists := (fs_exists example_world)(''sync'' := False)\<rparr>) ''luna'')
     = Inr True
   \<and> snapshot_files (fst (Synchronize example_formula example_deployer ''.db''
        (example_world\<lparr>fs_exists := (fs_exists example_world)(''sync'' := False)\<rparr>) ''luna''))
        ''sync/local/luna.db.snapshot''
     = Some \<lparr>db_name = ''luna'', is_user_db = True, owner_id = ''local'', tick_count = 5,
             entries = [(''ab '' @ tab # ''cd'', \<lparr>commits = 2, dee = 1, tick = 3\<rparr>)]\<rparr>
   \<and> create_directories_answer
         (example_world\<lparr>fs_exists := \<lambda>path. path = ''rime'',
                         create_directories_answer := \<lambda>path. Mkdir_failed\<rparr>)
         (sync_dir example_deployer) \<noteq> Created
   \<and> snd (Synchronize example_formula example_deployer ''.db''
        (example_world\<lparr>fs_exists := \<lambda>path. path = ''rime'',
                        create_directories_answer := \<lambda>path. Mkdir_failed\<rparr>)
        ''luna'')
     = Inr False"
proof -
  let ?w1 = "example_world\<lparr>snapshot_files :=
        (snapshot_files example_world)(''sync/other/luna.db.snapshot'' := None)\<rparr>"
  let ?w2 = "example_world\<lparr>fs_exists := (fs_exists example_world)(''sync'' := False)\<rparr>"
  let ?w3 = "example_world\<lparr>fs_exists := \<lambda>path. path = ''rime'',
                           create_directories_answer := \<lambda>path. Mkdir_failed\<rparr>"
  have h1: "fs_exists ?w1 (sync_dir example_deployer)"
      "fs_is_directory ?w1 (sync_dir example_deployer)"
    and h2: "\<not> fs_exists ?w2 (sync_dir example_deployer)"
      "create_directories_answer ?w2 (sync_dir example_deployer) = Created"
    and h3: "\<not> fs_exists ?w3 (sync_dir example_deployer)"
      "create_directories_answer ?w3 (sync_dir example_deployer) \<noteq> Created"
    by (simp_all add: example_world_def example_deployer_def)
  have r1: "Synchronize example_formula example_deployer ''.db'' ?w1 ''luna''
     = Synchronize_spec example_formula example_deployer ''.db'' ?w1 ''luna''"
    using Synchronize_merges_all_then_backs_up [of ?w1 example_deployer example_formula "''.db''" "''luna''"]
      h1 by blast
  have r2: "Synchronize example_formula example_deployer ''.db'' ?w2 ''luna''
     = Synchronize_spec example_formula example_deployer ''.db''
         (create_directories ?w2 (sync_dir example_deployer)) ''luna''"
    using Synchronize_merges_all_then_backs_up [of ?w2 example_deployer example_formula "''.db''" "''luna''"]
      h2 by blast
  have r3: "Synchronize example_formula example_deployer ''.db'' ?w3 ''luna'' = (?w3, Inr False)"
    using Synchronize_merges_all_then_backs_up [of ?w3 example_deployer example_formula "''.db''" "''luna''"]
      h3 by blast
  have s1: "snd (Synchronize_spec example_formula example_deployer ''.db'' ?w1 ''luna'') = Inr False"
    by (simp add: model_defs sync_defs Synchronize_spec_def peer_snapshots_def)
  have s1': "snapshot_files (fst (Synchronize_spec example_formula example_deployer ''.db'' ?w1 ''luna''))
        ''sync/local/luna.db.snapshot''
     = Some \<lparr>db_name = ''luna'', is_user_db = True, owner_id = ''local'', tick_count = 7,
             entries = [(''ab '' @ tab # ''cd'', \<lparr>commits = 9, dee = 1 / 2, tick = 7\<rparr>)]\<rparr>"
    by (simp add: model_defs sync_defs Synchronize_spec_def peer_snapshots_def)
  have s2: "snd (Synchronize_spec example_formula example_deployer ''.db''
         (create_directories ?w2 (sync_dir example_deployer)) ''luna'') = Inr True"
    by (simp add: model_defs sync_defs Synchronize_spec_def peer_snapshots_def)
  have s2': "snapshot_files (fst (Synchronize_spec example_formula example_deployer ''.db''
         (create_directories ?w2 (sync_dir example_deployer)) ''luna''))
        ''sync/local/luna.db.snapshot''
     = Some \<lparr>db_name = ''luna'', is_user_db = True, owner_id = ''local'', tick_count = 5,
             entries = [(''ab '' @ tab # ''cd'', \<lparr>commits = 2, dee = 1, tick = 3\<rparr>)]\<rparr>"
    by (simp add: model_defs sync_defs Synchronize_spec_def peer_snapshots_def)
  show ?thesis
    unfolding r1 r2 r3 using h1 h2 h3 s1 s1' s2 s2' by simp
qed

subsection \<open>C9: SynchronizeAll stops at the first failure\<close>

lemma sync_all_loop_append:
  "all_synced fd dp ext pre w \<Longrightarrow>
   sync_all_loop fd dp ext (pre @ rest) w = sync_all_loop fd dp ext rest (sync_run fd dp ext pre w)"
proof (induction pre arbitrary: w)
  case Nil
  then show ?case by (simp add: sync_run_def)
next
  case (Cons d pre)
  obtain w' where s: "Synchronize fd dp ext w d = (w', Inr True)"
    using Cons.prems by (cases "Synchronize fd dp ext w d") auto
  have "all_synced fd dp ext pre w'" using Cons.prems s by simp
  then have "sync_all_loop fd dp ext (pre @ rest) w' =
             sync_all_loop fd dp ext rest (sync_run fd dp ext pre w')"
    by (rule Cons.IH)
  then show ?case using s by (simp add: sync_run_def)
qed

lemma sync_all_loop_all:
  "all_synced fd dp ext ds w \<Longrightarrow> sync_all_loop fd dp ext ds w = (sync_run fd dp ext ds w, Inr True)"
  using sync_all_loop_append [of fd dp ext ds w "[]"] by simp

lemma sync_all_loop_first_failure:
  assumes "all_synced fd dp ext pre w"
    and "snd (Synchronize fd dp ext (sync_run fd dp ext pre w) d) = Inr False"
  shows "sync_all_loop fd dp ext (pre @ d # post) w =
         (fst (Synchronize fd dp ext (sync_run fd dp ext pre w) d), Inr False)"
proof -
  obtain w' where "Synchronize fd dp ext (sync_run fd dp ext pre w) d = (w', Inr False)"
    using assms(2) by (cases "Synchronize fd dp ext (sync_run fd dp ext pre w) d") auto
  then show ?thesis using assms(1) by (simp add: sync_all_loop_append)
qed

text \<open>
  C9. Over zero local dictionaries SynchronizeAll returns success and leaves the world
  as it was. When the dictionaries before \<open>dict_name\<close> in the list synchronize
  successfully, one after the other, and \<open>dict_name\<close> then fails, SynchronizeAll returns
  failure with the world as that failed synchronization left it: the dictionaries after
  it are not attempted. When every dictionary synchronizes successfully in turn,
  SynchronizeAll returns success with the world they leave.
\<close>

theorem SynchronizeAll_in_turn:
  "(GetUserDictList dp extension w = [] \<longrightarrow> SynchronizeAll fd dp extension w = (w, Inr True))
   \<and> (GetUserDictList dp extension w = pre @ dict_name # post
        \<and> all_synced fd dp extension pre w
        \<and> snd (Synchronize fd dp extension (sync_run fd dp extension pre w) dict_name)
            = Inr False \<longrightarrow>
      SynchronizeAll fd dp extension w =
        (fst (Synchronize fd dp extension (sync_run fd dp extension pre w) dict_name), Inr False))
   \<and> (all_synced fd dp extension (GetUserDictList dp extension w) w \<longrightarrow>
      SynchronizeAll fd dp extension w =
        (sync_run fd dp extension (GetUserDictList dp extension w) w, Inr True))"
  by (simp add: SynchronizeAll_def sync_all_loop_first_failure sync_all_loop_all)

text \<open>
  The example: with no user data directory nothing is listed and nothing happens; with
  "luna" failing to back up, "terra" after it is not synchronized (its snapshot is not
  written, though a synchronization of "terra" would write it); in the example world
  the one dictionary synchronizes.
\<close>

theorem SynchronizeAll_in_turn_witness:
  "GetUserDictList example_deployer ''.db'' (example_world\<lparr>fs_exists := \<lambda>path. False\<rparr>) = []
   \<and> SynchronizeAll example_formula example_deployer ''.db''
        (example_world\<lparr>fs_exists := \<lambda>path. False\<rparr>)
     = (example_world\<lparr>fs_exists := \<lambda>path. False\<rparr>, Inr True)
   \<and> GetUserDictList example_deployer ''.db''
        (example_world\<lparr>fs_entries := (fs_entries example_world)(''rime'' := [''luna.db'', ''terra.db'']),
                         backup_ok := \<lambda>name path. name \<noteq> ''luna''\<rparr>)
     = [] @ ''luna'' # [''terra'']
   \<and> snd (SynchronizeAll example_formula example_deployer ''.db''
        (example_world\<lparr>fs_entries := (fs_entries example_world)(''rime'' := [''luna.db'', ''terra.db'']),
                         backup_ok := \<lambda>name path. name \<noteq> ''luna''\<rparr>)) = Inr False
   \<and> snapshot_files (fst (SynchronizeAll example_formula example_deployer ''.db''
        (example_world\<lparr>fs_entries := (fs_entries example_world)(''rime'' := [''luna.db'', ''terra.db'']),
                         backup_ok := \<lambda>name path. name \<noteq> ''luna''\<rparr>)))
        ''sync/local/terra.db.snapshot'' = None
   \<and> snapshot_files (fst (Synchronize example_formula example_deployer ''.db''
        (example_world\<lparr>fs_entries := (fs_entries example_world)(''rime'' := [''luna.db'', ''terra.db'']),
                         backup_ok := \<lambda>name path. name \<noteq> ''luna''\<rparr>) ''terra''))
        ''sync/local/terra.db.snapshot'' \<noteq> None
   \<and> all_synced example_formula example_deployer ''.db''
        (GetUserDictList example_deployer ''.db'' example_world) example_world
   \<and> snd (SynchronizeAll example_formula example_deployer ''.db'' example_world) = Inr True"
proof -
  let ?w0 = "example_world\<lparr>fs_exists := \<lambda>path. False\<rparr>"
  let ?w1 = "example_world\<lparr>fs_entries := (fs_entries example_world)(''rime'' := [''luna.db'', ''terra.db'']),
                         backup_ok := \<lambda>name path. name \<noteq> ''luna''\<rparr>"
  have l0: "GetUserDictList example_deployer ''.db'' ?w0 = []"
    by (simp add: model_defs sync_defs)
  have l1: "GetUserDictList example_deployer ''.db'' ?w1 = [] @ ''luna'' # [''terra'']"
    by (simp add: model_defs sync_defs)
  have a1: "all_synced example_formula example_deployer ''.db'' [] ?w1" by simp
  have f1: "snd (Synchronize example_formula example_deployer ''.db''
                (sync_run example_formula example_deployer ''.db'' [] ?w1) ''luna'') = Inr False"
    by (simp add: sync_run_def model_defs sync_defs)
  have s1: "snapshot_files (fst (Synchronize example_formula example_deployer ''.db''
                (sync_run example_formula example_deployer ''.db'' [] ?w1) ''luna''))
              ''sync/local/terra.db.snapshot'' = None"
    by (simp add: sync_run_def model_defs sync_defs)
  have t1: "snapshot_files (fst (Synchronize example_formula example_deployer ''.db'' ?w1 ''terra''))
        ''sync/local/terra.db.snapshot'' \<noteq> None"
    by (simp add: model_defs sync_defs)
  have l2: "GetUserDictList example_deployer ''.db'' example_world = [''luna'']"
    by (simp add: model_defs sync_defs)
  have a2: "all_synced example_formula example_deployer ''.db''
        (GetUserDictList example_deployer ''.db'' example_world) example_world"
    unfolding l2 by (simp add: model_defs sync_defs)
  note t = SynchronizeAll_in_turn [where fd = example_formula and dp = example_deployer
      and extension = "''.db''"]
  have r0: "SynchronizeAll example_formula example_deployer ''.db'' ?w0 = (?w0, Inr True)"
    using t [where w = ?w0] l0 by blast
  have r1: "SynchronizeAll example_formula example_deployer ''.db'' ?w1 =
        (fst (Synchronize example_formula example_deployer ''.db''
                (sync_run example_formula example_deployer ''.db'' [] ?w1) ''luna''), Inr False)"
    using t [where w = ?w1 and pre = "[]" and dict_name = "''luna''" and post = "[''terra'']"]
      l1 a1 f1 by blast
  have r2: "SynchronizeAll example_formula example_deployer ''.db'' example_world =
        (sync_run example_formula example_deployer ''.db''
           (GetUserDictList example_deployer ''.db'' example_world) example_world, Inr True)"
    using t [where w = example_world] a2 by blast
  show ?thesis
    unfolding r0 r1 r2 using l0 l1 s1 t1 a2 by simp
qed

end
